theory Spec2Isabelle
  imports Main "HOL-Library.AList" "HOL-Library.Monad_Syntax"
begin

section \<open>Python values and strings\<close>

text \<open>
  The quiz-generation pipeline of \<^verbatim>\<open>app/routes/chatbot.py\<close> is embedded function by
  function. A Python \<^verbatim>\<open>str\<close> is a \<^typ>\<open>string\<close>: one \<^typ>\<open>char\<close> per code point, so
  the model covers the code points below 256 and \<^const>\<open>length\<close> is Python's \<^verbatim>\<open>len\<close>.
  The values that travel through dictionaries (parsed JSON, rows of the store, the
  response body) are one datatype; a dictionary is an association list in insertion
  order with distinct keys. A float is kept as its literal text.
\<close>

datatype json =
    JNull
  | JBool bool
  | JInt int
  | JFloat string
  | JString string
  | JArray "json list"
  | JObject "(string \<times> json) list"

type_synonym row = "(string \<times> json) list"

text \<open>\<^verbatim>\<open>fastapi.HTTPException(status_code, detail)\<close>.\<close>

datatype HTTPException = HTTPException (status_code: nat) (detail: string)

text \<open>The line feed, which a string literal cannot hold.\<close>

abbreviation LF :: char where "LF \<equiv> CHR 0x0A"

text \<open>\<^verbatim>\<open>str.isspace\<close> on the code points below 256, which is what \<^verbatim>\<open>str.strip()\<close> removes.\<close>

definition isspace :: "char \<Rightarrow> bool" where
  "isspace c =
     (let n = (of_char c :: nat)
      in (9 \<le> n \<and> n \<le> 13) \<or> (28 \<le> n \<and> n \<le> 32) \<or> n = 133 \<or> n = 160)"

definition strip :: "string \<Rightarrow> string" where
  "strip s = rev (dropWhile isspace (rev (dropWhile isspace s)))"

text \<open>\<^verbatim>\<open>str.lower\<close> on the code points below 256: A-Z and the accented capitals
  0xC0-0xDE except the multiplication sign 0xD7.\<close>

definition lower_char :: "char \<Rightarrow> char" where
  "lower_char c =
     (let n = (of_char c :: nat)
      in if (65 \<le> n \<and> n \<le> 90) \<or> (192 \<le> n \<and> n \<le> 222 \<and> n \<noteq> 215)
         then char_of (n + 32) else c)"

definition lower :: "string \<Rightarrow> string" where
  "lower s = map lower_char s"

definition startswith :: "string \<Rightarrow> string \<Rightarrow> bool" where
  "startswith s p = (take (length p) s = p)"

definition endswith :: "string \<Rightarrow> string \<Rightarrow> bool" where
  "endswith s p = (length p \<le> length s \<and> drop (length s - length p) s = p)"

text \<open>The substring test \<^verbatim>\<open>p in s\<close>.\<close>

fun py_in :: "string \<Rightarrow> string \<Rightarrow> bool" where
  "py_in p [] = (p = [])"
| "py_in p (c # cs) = (startswith (c # cs) p \<or> py_in p cs)"

text \<open>\<^verbatim>\<open>s.replace('Z', '+00:00')\<close>: every occurrence is replaced.\<close>

definition replace_Z :: "string \<Rightarrow> string" where
  "replace_Z s = concat (map (\<lambda>c. if c = CHR ''Z'' then ''+00:00'' else [c]) s)"

text \<open>\<^verbatim>\<open>str(n)\<close> for a natural number.\<close>

fun str_nat :: "nat \<Rightarrow> string" where
  "str_nat n =
     (if n < 10 then [''0123456789'' ! n]
      else str_nat (n div 10) @ [''0123456789'' ! (n mod 10)])"

text \<open>\<^verbatim>\<open>d.get(k)\<close> and \<^verbatim>\<open>d[k]\<close> read the dictionary with \<^const>\<open>map_of\<close>.\<close>

section \<open>The sanitizer: \<^verbatim>\<open>clean_gemini_json\<close>\<close>

text \<open>
  The substitution \<^verbatim>\<open>re.sub(r"^```(?:json)?|```$", "", s, flags=IGNORECASE | MULTILINE)\<close>
  scans from the left. At each position the first alternative is tried, then the
  second; a match is deleted and the scan goes on behind it, otherwise one character
  is copied.

  \<^verbatim>\<open>fence_open\<close> is the first alternative behind its anchor: three backticks and,
  greedily, the tag in any case. It returns the text behind the match.
\<close>

definition fence_open :: "string \<Rightarrow> string option" where
  "fence_open s =
     (if take 3 s = ''```''
      then (if lower (take 4 (drop 3 s)) = ''json'' then Some (drop 7 s) else Some (drop 3 s))
      else None)"

text \<open>The second alternative: three backticks at the end of the text or right before
  a line feed (\<^verbatim>\<open>$\<close> under MULTILINE).\<close>

definition fence_close :: "string \<Rightarrow> string option" where
  "fence_close s =
     (if take 3 s = ''```'' \<and> (drop 3 s = [] \<or> hd (drop 3 s) = LF)
      then Some (drop 3 s) else None)"

text \<open>The flag says whether the position is at the beginning of a line (\<^verbatim>\<open>^\<close> under
  MULTILINE: the start of the text or right behind a line feed).\<close>

function sub_fences :: "bool \<Rightarrow> string \<Rightarrow> string" where
  "sub_fences bol [] = []"
| "sub_fences bol (c # cs) =
     (case (if bol then fence_open (c # cs) else None) of
        Some r \<Rightarrow> sub_fences False r
      | None \<Rightarrow>
          (case fence_close (c # cs) of
             Some r \<Rightarrow> sub_fences False r
           | None \<Rightarrow> c # sub_fences (c = LF) cs))"
  by pat_completeness auto
termination
  by (relation "measure (\<lambda>(b, s). length s)")
     (auto simp: fence_open_def fence_close_def split: if_splits)

text \<open>\<^verbatim>\<open>re.search(r"\{.*\}", s, re.DOTALL)\<close>: from the first opening brace to the last
  closing brace behind it; no match when no closing brace follows the first opening
  one.\<close>

definition search_braces :: "string \<Rightarrow> string option" where
  "search_braces s =
     (let t = dropWhile (\<lambda>c. c \<noteq> CHR ''{'') s;
          r = rev (dropWhile (\<lambda>c. c \<noteq> CHR ''}'') (rev t))
      in if r = [] then None else Some r)"

text \<open>Lines 270-275: trim, remove the fences, trim, drop one pair of parentheses
  around the whole text, trim.\<close>

definition strip_noise :: "string \<Rightarrow> string" where
  "strip_noise raw_text =
     (let cleaned = strip raw_text;
          cleaned = strip (sub_fences True cleaned)
      in if startswith cleaned ''('' \<and> endswith cleaned '')''
         then strip (butlast (tl cleaned)) else cleaned)"

text \<open>Lines 277-281: the candidate text handed to the JSON decoder.\<close>

definition candidate :: "string \<Rightarrow> string option" where
  "candidate raw_text = search_braces (strip_noise raw_text)"

text \<open>
  \<^verbatim>\<open>json.loads\<close> belongs to the standard library and is a parameter: \<open>loads s\<close> is
  \<open>Inr\<close> the decoded value or \<open>Inl\<close> the text of the \<^verbatim>\<open>JSONDecodeError\<close>.
\<close>

definition clean_gemini_json :: "(string \<Rightarrow> string + json) \<Rightarrow> string \<Rightarrow> HTTPException + json" where
  "clean_gemini_json loads raw_text =
     (case candidate raw_text of
        None \<Rightarrow>
          Inl (HTTPException 400
                (''Gemini returned no JSON block.'' @ [LF] @ ''Output:'' @ [LF] @ raw_text))
      | Some cleaned \<Rightarrow>
          (case loads cleaned of
             Inr v \<Rightarrow> Inr v
           | Inl e \<Rightarrow>
               Inl (HTTPException 400
                     (''Gemini returned invalid JSON: '' @ e @ [LF] @ ''Cleaned Output:'' @ [LF]
                      @ cleaned))))"

section \<open>What the module reads from outside\<close>

text \<open>
  An aware \<^verbatim>\<open>datetime\<close> is the reading of its own clock, in microseconds since
  0001-01-01T00:00:00 on that clock, together with its offset from UTC in microseconds.
  The reading lies between 0001-01-01T00:00:00 and 9999-12-31T23:59:59.999999, which
  are 3652059 days.
\<close>

record datetime =
  wall :: int
  utcoffset :: int

definition in_range :: "int \<Rightarrow> bool" where
  "in_range w = (0 \<le> w \<and> w < 3652059 * 86400000000)"

text \<open>Two aware datetimes compare by their instants: \<^verbatim>\<open>a <= b\<close>.\<close>

definition datetime_le :: "datetime \<Rightarrow> datetime \<Rightarrow> bool" where
  "datetime_le a b = (wall a - utcoffset a \<le> wall b - utcoffset b)"

text \<open>\<^verbatim>\<open>timedelta(minutes=m)\<close> in microseconds; a \<^verbatim>\<open>timedelta\<close> has at most 999999999 days in
  either direction, and \<open>None\<close> is the \<^verbatim>\<open>OverflowError\<close> beyond.\<close>

definition timedelta_minutes :: "int \<Rightarrow> int option" where
  "timedelta_minutes m =
     (let us = m * 60000000
      in if - 999999999 * 86400000000 \<le> us \<and> us < 1000000000 * 86400000000
         then Some us else None)"

text \<open>A datetime moved by a number of microseconds: the clock reading moves, the offset
  stays; \<open>None\<close> is the \<^verbatim>\<open>OverflowError\<close> of a result outside the years 1 to 9999.\<close>

definition shift :: "datetime \<Rightarrow> int \<Rightarrow> datetime option" where
  "shift dt us =
     (if in_range (wall dt + us) then Some (dt\<lparr>wall := wall dt + us\<rparr>) else None)"

text \<open>What \<^verbatim>\<open>datetime.fromisoformat(s).astimezone(IST)\<close> yields: a \<^verbatim>\<open>ValueError\<close>, another
  exception with its text (the \<^verbatim>\<open>OverflowError\<close> of a conversion that leaves the years 1
  to 9999), or the datetime.\<close>

datatype parsed = ValueError | Raises string | Parsed datetime

text \<open>The two overflows of the arithmetic.\<close>

datatype overflow = TimedeltaRange int | DateRange

text \<open>
  The libraries, the clock and the store are not part of the repository's sources and
  are parameters of every function that uses them:
  \<^item> \<open>json_loads\<close>: \<^verbatim>\<open>json.loads\<close>, \<open>Inl\<close> the text of the \<^verbatim>\<open>JSONDecodeError\<close>;
  \<^item> \<open>validate_str\<close>, \<open>validate_int\<close>, \<open>validate_bool\<close>: pydantic's validation of one
    value against \<^verbatim>\<open>str\<close>, \<^verbatim>\<open>int\<close>, \<^verbatim>\<open>bool\<close>, \<open>None\<close> when it is rejected;
  \<^item> \<open>validation_error\<close>: the text of pydantic's \<^verbatim>\<open>ValidationError\<close> for the rejected
    keyword arguments;
  \<^item> \<open>fromisoformat_ist\<close>: \<^verbatim>\<open>datetime.fromisoformat(s).astimezone(IST)\<close>;
  \<^item> \<open>isoformat\<close>: \<^verbatim>\<open>.isoformat()\<close> of an aware datetime in IST;
  \<^item> \<open>overflow_text\<close>: the text of the \<^verbatim>\<open>OverflowError\<close> that \<^verbatim>\<open>timedelta(minutes=m)\<close> or
    the sum or difference of a datetime and a timedelta raises outside its range;
  \<^item> \<open>py_str\<close>: the text an f-string puts for a value;
  \<^item> \<open>current_time\<close>, \<open>created_at\<close>: the two readings of \<^verbatim>\<open>datetime.now(IST)\<close> in
    \<^verbatim>\<open>create_quiz_internal\<close> (lines 176 and 233); \<open>uuid4\<close>: \<^verbatim>\<open>str(uuid4())\<close>;
  \<^item> \<open>store_insert\<close>: what the store does on \<^verbatim>\<open>db.insert(table, record)\<close> in a state
    of type \<open>'s\<close>: the new state and either the stored row or, \<open>Inl\<close>, the text of
    the exception it raises (an exception other than \<^verbatim>\<open>HTTPException\<close>).
\<close>

record 's ext =
  json_loads :: "string \<Rightarrow> string + json"
  validate_str :: "json \<Rightarrow> string option"
  validate_int :: "json \<Rightarrow> int option"
  validate_bool :: "json \<Rightarrow> bool option"
  validation_error :: "row \<Rightarrow> string"
  fromisoformat_ist :: "string \<Rightarrow> parsed"
  isoformat :: "datetime \<Rightarrow> string"
  overflow_text :: "overflow \<Rightarrow> string"
  py_str :: "json \<Rightarrow> string"
  current_time :: datetime
  created_at :: datetime
  uuid4 :: string
  store_insert :: "'s \<Rightarrow> string \<Rightarrow> row \<Rightarrow> (string + row) \<times> 's"

text \<open>The store together with the log of every call of \<^verbatim>\<open>db.insert\<close>: table, record and
  outcome, in call order. The log is what "a write was attempted" means below.\<close>

record 's db =
  db_state :: 's
  db_log :: "(string \<times> row \<times> (string + row)) list"

definition db_insert :: "'s ext \<Rightarrow> string \<Rightarrow> row \<Rightarrow> 's db \<Rightarrow> (string + row) \<times> 's db" where
  "db_insert L table record d =
     (case store_insert L (db_state d) table record of
        (res, s') \<Rightarrow> (res, \<lparr>db_state = s', db_log = db_log d @ [(table, record, res)]\<rparr>))"

text \<open>An exception inside the \<^verbatim>\<open>try\<close> of \<^verbatim>\<open>create_quiz_internal\<close>: an \<^verbatim>\<open>HTTPException\<close>,
  or any other exception with its \<^verbatim>\<open>str()\<close>.\<close>

datatype exn = Http HTTPException | Other string

text \<open>\<^verbatim>\<open>dt + timedelta(minutes=m)\<close> and \<^verbatim>\<open>dt - timedelta(minutes=m)\<close>: the timedelta is built
  first, then the datetime is moved; \<open>Inl\<close> is the text of the \<^verbatim>\<open>OverflowError\<close>.\<close>

definition plus_minutes :: "'s ext \<Rightarrow> datetime \<Rightarrow> int \<Rightarrow> string + datetime" where
  "plus_minutes L dt m =
     (case timedelta_minutes m of
        None \<Rightarrow> Inl (overflow_text L (TimedeltaRange m))
      | Some us \<Rightarrow>
          (case shift dt us of
             None \<Rightarrow> Inl (overflow_text L DateRange)
           | Some r \<Rightarrow> Inr r))"

definition minus_minutes :: "'s ext \<Rightarrow> datetime \<Rightarrow> int \<Rightarrow> string + datetime" where
  "minus_minutes L dt m =
     (case timedelta_minutes m of
        None \<Rightarrow> Inl (overflow_text L (TimedeltaRange m))
      | Some us \<Rightarrow>
          (case shift dt (- us) of
             None \<Rightarrow> Inl (overflow_text L DateRange)
           | Some r \<Rightarrow> Inr r))"

definition quoted :: "string \<Rightarrow> string" where
  "quoted s = [CHR 0x27] @ s @ [CHR 0x27]"

text \<open>\<^verbatim>\<open>d[k]\<close>; \<open>Inl\<close> is \<^verbatim>\<open>str(KeyError(k))\<close>.\<close>

definition getitem :: "row \<Rightarrow> string \<Rightarrow> string + json" where
  "getitem d k = (case map_of d k of None \<Rightarrow> Inl (quoted k) | Some v \<Rightarrow> Inr v)"

text \<open>The truth value of an \<^verbatim>\<open>Optional[str]\<close>: \<^verbatim>\<open>None\<close> and the empty string are false.
  The result is the string when it is true.\<close>

definition truthy :: "string option \<Rightarrow> string option" where
  "truthy x = (case x of None \<Rightarrow> None | Some s \<Rightarrow> if s = [] then None else Some s)"

definition opt_json :: "string option \<Rightarrow> json" where
  "opt_json x = (case x of None \<Rightarrow> JNull | Some s \<Rightarrow> JString s)"

section \<open>Schema objects\<close>

record QuestionCreate =
  question_text :: string
  option_a :: string
  option_b :: string
  option_c :: string
  option_d :: string
  correct_option :: string

text \<open>\<^verbatim>\<open>QuestionCreate.validate_lengths\<close>; \<open>Inl\<close> is the text of the \<^verbatim>\<open>ValueError\<close>.\<close>

definition validate_lengths :: "QuestionCreate \<Rightarrow> string + unit" where
  "validate_lengths self =
     (if length (question_text self) > 500 then Inl ''Question text cannot exceed 500 characters''
      else if length (option_a self) > 200 then Inl ''Option A cannot exceed 200 characters''
      else if length (option_b self) > 200 then Inl ''Option B cannot exceed 200 characters''
      else if length (option_c self) > 200 then Inl ''Option C cannot exceed 200 characters''
      else if length (option_d self) > 200 then Inl ''Option D cannot exceed 200 characters''
      else if correct_option self \<notin> set [''a'', ''b'', ''c'', ''d'']
      then Inl (''Correct option must be '' @ quoted ''a'' @ '', '' @ quoted ''b'' @ '', ''
                @ quoted ''c'' @ '', or '' @ quoted ''d'')
      else Inr ())"

record QuizCreate =
  title :: string
  description :: string
  is_trivia :: bool
  topic :: "string option"
  start_time :: "string option"
  end_time :: "string option"
  duration :: int
  positive_mark :: int
  negative_mark :: int
  navigation_type :: string
  tab_switch_exit :: bool
  difficulty :: "string option"
  questions :: "QuestionCreate list"

text \<open>
  Building a schema object from keyword arguments, as pydantic's \<^verbatim>\<open>BaseModel\<close> does:
  a field without a default must be present, an absent field with a default takes it,
  a present field is validated against its type, other keys are ignored. \<open>None\<close> is
  \<^verbatim>\<open>ValidationError\<close>.
\<close>

definition required :: "(json \<Rightarrow> 'a option) \<Rightarrow> row \<Rightarrow> string \<Rightarrow> 'a option" where
  "required v kw k = (case map_of kw k of None \<Rightarrow> None | Some x \<Rightarrow> v x)"

definition with_default :: "(json \<Rightarrow> 'a option) \<Rightarrow> 'a \<Rightarrow> row \<Rightarrow> string \<Rightarrow> 'a option" where
  "with_default v dflt kw k = (case map_of kw k of None \<Rightarrow> Some dflt | Some x \<Rightarrow> v x)"

definition optional_str :: "'s ext \<Rightarrow> json \<Rightarrow> string option option" where
  "optional_str L x = (if x = JNull then Some None else map_option Some (validate_str L x))"

definition QuestionCreate_init :: "'s ext \<Rightarrow> json \<Rightarrow> QuestionCreate option" where
  "QuestionCreate_init L x =
     (case x of
        JObject kw \<Rightarrow>
          do {
            qt \<leftarrow> required (validate_str L) kw ''question_text'';
            a \<leftarrow> required (validate_str L) kw ''option_a'';
            b \<leftarrow> required (validate_str L) kw ''option_b'';
            c \<leftarrow> required (validate_str L) kw ''option_c'';
            d \<leftarrow> required (validate_str L) kw ''option_d'';
            co \<leftarrow> required (validate_str L) kw ''correct_option'';
            Some \<lparr>question_text = qt, option_a = a, option_b = b, option_c = c, option_d = d,
                  correct_option = co\<rparr>
          }
      | _ \<Rightarrow> None)"

definition question_list :: "'s ext \<Rightarrow> json \<Rightarrow> QuestionCreate list option" where
  "question_list L x =
     (case x of JArray xs \<Rightarrow> those (map (QuestionCreate_init L) xs) | _ \<Rightarrow> None)"

definition QuizCreate_init :: "'s ext \<Rightarrow> row \<Rightarrow> QuizCreate option" where
  "QuizCreate_init L kw =
     do {
       t \<leftarrow> required (validate_str L) kw ''title'';
       de \<leftarrow> required (validate_str L) kw ''description'';
       tr \<leftarrow> with_default (validate_bool L) False kw ''is_trivia'';
       tp \<leftarrow> with_default (optional_str L) None kw ''topic'';
       st \<leftarrow> with_default (optional_str L) None kw ''start_time'';
       en \<leftarrow> with_default (optional_str L) None kw ''end_time'';
       du \<leftarrow> with_default (validate_int L) 60 kw ''duration'';
       pm \<leftarrow> with_default (validate_int L) 1 kw ''positive_mark'';
       nm \<leftarrow> with_default (validate_int L) 0 kw ''negative_mark'';
       nt \<leftarrow> with_default (validate_str L) ''omni'' kw ''navigation_type'';
       ts \<leftarrow> with_default (validate_bool L) True kw ''tab_switch_exit'';
       di \<leftarrow> with_default (optional_str L) None kw ''difficulty'';
       qs \<leftarrow> with_default (question_list L) [] kw ''questions'';
       Some \<lparr>title = t, description = de, is_trivia = tr, topic = tp, start_time = st,
             end_time = en, duration = du, positive_mark = pm, negative_mark = nm,
             navigation_type = nt, tab_switch_exit = ts, difficulty = di, questions = qs\<rparr>
     }"

section \<open>\<^verbatim>\<open>create_quiz_internal\<close>\<close>

text \<open>Lines 170-174: the questions are validated in order; the first \<^verbatim>\<open>ValueError\<close>
  becomes an \<^verbatim>\<open>HTTPException\<close> with the question's number. The first argument is the
  index \<^verbatim>\<open>i\<close> of \<^verbatim>\<open>enumerate\<close>.\<close>

fun validate_questions :: "nat \<Rightarrow> QuestionCreate list \<Rightarrow> HTTPException + unit" where
  "validate_questions i [] = Inr ()"
| "validate_questions i (question # rest) =
     (case validate_lengths question of
        Inl e \<Rightarrow> Inl (HTTPException 400 (''Question '' @ str_nat (i + 1) @ '': '' @ e))
      | Inr _ \<Rightarrow> validate_questions (i + 1) rest)"

text \<open>Lines 176-214: the pair \<^verbatim>\<open>(start_time, end_time)\<close> that goes into the record. The
  handlers of lines 195 and 213 catch a \<^verbatim>\<open>ValueError\<close> only: an \<^verbatim>\<open>HTTPException\<close> and any
  other exception leave the block as they are.\<close>

definition resolve_schedule :: "'s ext \<Rightarrow> QuizCreate \<Rightarrow> exn + (string option \<times> string option)" where
  "resolve_schedule L quiz_data =
     (case truthy (start_time quiz_data) of
        Some s \<Rightarrow>
          (case fromisoformat_ist L (replace_Z s) of
             ValueError \<Rightarrow> Inl (Http (HTTPException 400 ''Invalid start_time format. Use ISO format.''))
           | Raises e \<Rightarrow> Inl (Other e)
           | Parsed start_dt \<Rightarrow>
               if datetime_le start_dt (current_time L)
               then Inl (Http (HTTPException 400
                                ''Start time must be in the future for scheduled quizzes''))
               else
                 (case plus_minutes L start_dt (duration quiz_data) of
                    Inl e \<Rightarrow> Inl (Other e)
                  | Inr end_dt \<Rightarrow> Inr (Some (isoformat L start_dt), Some (isoformat L end_dt))))
      | None \<Rightarrow>
          (case truthy (end_time quiz_data) of
             Some s \<Rightarrow>
               (case fromisoformat_ist L (replace_Z s) of
                  ValueError \<Rightarrow>
                    Inl (Http (HTTPException 400 ''Invalid end_time format. Use ISO format.''))
                | Raises e \<Rightarrow> Inl (Other e)
                | Parsed end_dt \<Rightarrow>
                    (case minus_minutes L end_dt (duration quiz_data) of
                       Inl e \<Rightarrow> Inl (Other e)
                     | Inr start_dt \<Rightarrow>
                         if datetime_le start_dt (current_time L)
                         then Inl (Http (HTTPException 400
                                          ''Quiz duration too long for the specified end time''))
                         else Inr (Some (isoformat L start_dt), Some (isoformat L end_dt))))
           | None \<Rightarrow> Inr (None, None)))"

text \<open>Lines 216-234: the quiz record.\<close>

definition quiz_record :: "'s ext \<Rightarrow> QuizCreate \<Rightarrow> json \<Rightarrow> string option \<Rightarrow> string option \<Rightarrow> row" where
  "quiz_record L quiz_data creator_id start_time' end_time' =
     [(''id'', JString (uuid4 L)),
      (''title'', JString (title quiz_data)),
      (''description'', JString (description quiz_data)),
      (''creator_id'', creator_id),
      (''is_trivia'', JBool False),
      (''topic'', JNull),
      (''start_time'', opt_json start_time'),
      (''end_time'', opt_json end_time'),
      (''duration'', JInt (duration quiz_data)),
      (''positive_mark'', JInt (positive_mark quiz_data)),
      (''negative_mark'', JInt (negative_mark quiz_data)),
      (''navigation_type'', JString (navigation_type quiz_data)),
      (''tab_switch_exit'', JBool (tab_switch_exit quiz_data)),
      (''difficulty'', JNull),
      (''popularity'', JInt 0),
      (''is_active'', JBool True),
      (''created_at'', JString (isoformat L (created_at L)))]"

text \<open>Lines 240-249: one question record.\<close>

definition question_record :: "json \<Rightarrow> QuestionCreate \<Rightarrow> int \<Rightarrow> row" where
  "question_record quiz_id question_data mark =
     [(''quiz_id'', quiz_id),
      (''question_text'', JString (question_text question_data)),
      (''option_a'', JString (option_a question_data)),
      (''option_b'', JString (option_b question_data)),
      (''option_c'', JString (option_c question_data)),
      (''option_d'', JString (option_d question_data)),
      (''correct_option'', JString (correct_option question_data)),
      (''mark'', JInt mark)]"

text \<open>Lines 239-250: the loop over the questions; it stops at the first exception.\<close>

fun insert_questions ::
  "'s ext \<Rightarrow> row \<Rightarrow> int \<Rightarrow> QuestionCreate list \<Rightarrow> 's db \<Rightarrow> (string + unit) \<times> 's db" where
  "insert_questions L created_quiz mark [] d = (Inr (), d)"
| "insert_questions L created_quiz mark (question_data # rest) d =
     (case getitem created_quiz ''id'' of
        Inl e \<Rightarrow> (Inl e, d)
      | Inr quiz_id \<Rightarrow>
          (case db_insert L ''questions'' (question_record quiz_id question_data mark) d of
             (Inl e, d') \<Rightarrow> (Inl e, d')
           | (Inr _, d') \<Rightarrow> insert_questions L created_quiz mark rest d'))"

text \<open>Lines 216-252: building the record and the writes. The test of line 238 is true
  here, the list of questions being non-empty behind line 167; on an empty list the
  loop does nothing.\<close>

definition persist ::
  "'s ext \<Rightarrow> QuizCreate \<Rightarrow> row \<Rightarrow> string option \<Rightarrow> string option \<Rightarrow> 's db \<Rightarrow> (string + row) \<times> 's db" where
  "persist L quiz_data current_user start_time' end_time' d =
     (case getitem current_user ''id'' of
        Inl e \<Rightarrow> (Inl e, d)
      | Inr creator_id \<Rightarrow>
          (case db_insert L ''quizzes'' (quiz_record L quiz_data creator_id start_time' end_time') d of
             (Inl e, d') \<Rightarrow> (Inl e, d')
           | (Inr created_quiz, d') \<Rightarrow>
               (case insert_questions L created_quiz (positive_mark quiz_data)
                       (questions quiz_data) d' of
                  (Inl e, d'') \<Rightarrow> (Inl e, d'')
                | (Inr _, d'') \<Rightarrow>
                    (case getitem created_quiz ''id'' of
                       Inl e \<Rightarrow> (Inl e, d'')
                     | Inr quiz_id \<Rightarrow>
                         (case getitem created_quiz ''title'' of
                            Inl e \<Rightarrow> (Inl e, d'')
                          | Inr t \<Rightarrow> (Inr [(''quiz_id'', quiz_id), (''title'', t)], d''))))))"

text \<open>Lines 163-252: the body of the \<^verbatim>\<open>try\<close>.\<close>

definition create_quiz_body ::
  "'s ext \<Rightarrow> QuizCreate \<Rightarrow> row \<Rightarrow> 's db \<Rightarrow> (exn + row) \<times> 's db" where
  "create_quiz_body L quiz_data current_user d =
     (if length (questions quiz_data) > 50
      then (Inl (Http (HTTPException 400 ''Maximum 50 questions allowed per quiz'')), d)
      else if length (questions quiz_data) < 1
      then (Inl (Http (HTTPException 400 ''At least 1 question is required'')), d)
      else
        (case validate_questions 0 (questions quiz_data) of
           Inl e \<Rightarrow> (Inl (Http e), d)
         | Inr _ \<Rightarrow>
             (case resolve_schedule L quiz_data of
                Inl e \<Rightarrow> (Inl e, d)
              | Inr (start_time', end_time') \<Rightarrow>
                  (case persist L quiz_data current_user start_time' end_time' d of
                     (Inl e, d') \<Rightarrow> (Inl (Other e), d')
                   | (Inr result, d') \<Rightarrow> (Inr result, d')))))"

text \<open>Line 258: the test on the text of the exception.\<close>

definition is_duplicate :: "string \<Rightarrow> bool" where
  "is_duplicate error_msg =
     (py_in ''duplicate key value'' error_msg \<or> py_in ''unique'' (lower error_msg))"

text \<open>Lines 254-263: the two handlers.\<close>

definition handle_exception :: "exn \<Rightarrow> HTTPException" where
  "handle_exception e =
     (case e of
        Http h \<Rightarrow> h
      | Other error_msg \<Rightarrow>
          if is_duplicate error_msg
          then HTTPException 400
                 ''A quiz with this title already exists. Please choose a different title.''
          else HTTPException 400 (''Failed to create quiz: '' @ error_msg))"

definition create_quiz_internal ::
  "'s ext \<Rightarrow> QuizCreate \<Rightarrow> row \<Rightarrow> 's db \<Rightarrow> (HTTPException + row) \<times> 's db" where
  "create_quiz_internal L quiz_data current_user d =
     (case create_quiz_body L quiz_data current_user d of
        (Inl e, d') \<Rightarrow> (Inl (handle_exception e), d')
      | (Inr result, d') \<Rightarrow> (Inr result, d'))"

section \<open>The router: \<^verbatim>\<open>generate_quiz\<close>\<close>

text \<open>\<^verbatim>\<open>type(v).__name__\<close>, for the text of the \<^verbatim>\<open>AttributeError\<close> of \<^verbatim>\<open>v.get\<close> on a value
  that is no dictionary.\<close>

definition type_name :: "json \<Rightarrow> string" where
  "type_name v =
     (case v of
        JNull \<Rightarrow> ''NoneType'' | JBool _ \<Rightarrow> ''bool'' | JInt _ \<Rightarrow> ''int'' | JFloat _ \<Rightarrow> ''float''
      | JString _ \<Rightarrow> ''str'' | JArray _ \<Rightarrow> ''list'' | JObject _ \<Rightarrow> ''dict'')"

text \<open>Lines 321-327 and 352-358: the two answers to a request that creates no quiz.\<close>

definition non_quiz_response :: "row \<Rightarrow> row" where
  "non_quiz_response response_json =
     [(''success'', JBool False),
      (''intent'', JString ''non_quiz''),
      (''message'',
         (case map_of response_json ''message'' of
            Some m \<Rightarrow> m
          | None \<Rightarrow> JString ''I'm a Quiz Creation Bot. Please describe the quiz you want to create.'')),
      (''is_quiz_request'', JBool False)]"

definition unclear_response :: row where
  "unclear_response =
     [(''success'', JBool False),
      (''intent'', JString ''unclear''),
      (''message'',
         JString (''I'm a Quiz Creation Bot. I can only help you create quizzes. ''
                  @ ''Please describe the quiz you want to create, for example: ''
                  @ quoted ''Create a quiz on Python programming with 10 questions'' @ ''.'')),
      (''is_quiz_request'', JBool False)]"

text \<open>Lines 341-351: the answer after a quiz was created. \<open>Inl\<close> is the text of a
  \<^verbatim>\<open>KeyError\<close> of \<^verbatim>\<open>result[...]\<close>.\<close>

definition success_response :: "'s ext \<Rightarrow> string \<Rightarrow> QuizCreate \<Rightarrow> row \<Rightarrow> string + row" where
  "success_response L prompt quiz_obj result =
     (case getitem result ''title'' of
        Inl e \<Rightarrow> Inl e
      | Inr t \<Rightarrow>
          (case getitem result ''quiz_id'' of
             Inl e \<Rightarrow> Inl e
           | Inr quiz_id \<Rightarrow>
               Inr [(''success'', JBool True),
                    (''intent'', JString ''quiz_creation''),
                    (''message'',
                       JString (''Quiz '' @ quoted (py_str L t)
                                @ '' created successfully! You can view it in your My Quizzes page.'')),
                    (''quiz_id'', quiz_id),
                    (''quiz_title'', t),
                    (''questions_generated'', JInt (int (length (questions quiz_obj)))),
                    (''redirect_message'', JString ''Check your quiz in /my-quizzes page''),
                    (''parsed_from'', JString prompt),
                    (''is_quiz_request'', JBool True)]))"

text \<open>Lines 334-351: what happens to the parsed quiz. An exception that is neither an
  \<^verbatim>\<open>HTTPException\<close> nor a \<^verbatim>\<open>JSONDecodeError\<close> reaches the last handler (line 364) and
  becomes status 500.\<close>

definition create_from_parsed ::
  "'s ext \<Rightarrow> string \<Rightarrow> row \<Rightarrow> QuizCreate \<Rightarrow> 's db \<Rightarrow> (HTTPException + row) \<times> 's db" where
  "create_from_parsed L prompt current_user quiz_obj d =
     (if length (questions quiz_obj) < 1
      then (Inl (HTTPException 400 ''Quiz must have at least 1 question''), d)
      else
        (let quiz_obj =
               (if length (questions quiz_obj) > 20
                then quiz_obj\<lparr>questions := take 20 (questions quiz_obj)\<rparr>
                else quiz_obj)
         in case create_quiz_internal L quiz_obj current_user d of
              (Inl e, d') \<Rightarrow> (Inl e, d')
            | (Inr result, d') \<Rightarrow>
                (case success_response L prompt quiz_obj result of
                   Inl e \<Rightarrow> (Inl (HTTPException 500 (''Quiz generation failed: '' @ e)), d')
                 | Inr response \<Rightarrow> (Inr response, d'))))"

text \<open>Lines 330-351: the branch of the intent \<^verbatim>\<open>quiz_creation\<close>. The keyword arguments
  are the answer without its \<^verbatim>\<open>intent\<close>; a \<^verbatim>\<open>ValidationError\<close> reaches the last handler.\<close>

definition quiz_creation ::
  "'s ext \<Rightarrow> string \<Rightarrow> row \<Rightarrow> row \<Rightarrow> 's db \<Rightarrow> (HTTPException + row) \<times> 's db" where
  "quiz_creation L prompt current_user response_json d =
     (let quiz_data = filter (\<lambda>(k, v). k \<noteq> ''intent'') response_json
      in case QuizCreate_init L quiz_data of
           None \<Rightarrow>
             (Inl (HTTPException 500 (''Quiz generation failed: '' @ validation_error L quiz_data)), d)
         | Some quiz_obj \<Rightarrow> create_from_parsed L prompt current_user quiz_obj d)"

text \<open>
  Lines 316-365: \<^verbatim>\<open>generate_quiz\<close> from the oracle's answer on. Lines 293-314 compose the
  prompt and call the oracle; \<open>response_text\<close> is the \<^verbatim>\<open>response.text\<close> they yield.
\<close>

definition generate_quiz ::
  "'s ext \<Rightarrow> string \<Rightarrow> row \<Rightarrow> string option \<Rightarrow> 's db \<Rightarrow> (HTTPException + row) \<times> 's db" where
  "generate_quiz L prompt current_user response_text d =
     (case truthy response_text of
        None \<Rightarrow> (Inl (HTTPException 500 ''Gemini returned empty response''), d)
      | Some text \<Rightarrow>
          (case clean_gemini_json (json_loads L) text of
             Inl e \<Rightarrow> (Inl e, d)
           | Inr (JObject response_json) \<Rightarrow>
               if map_of response_json ''intent'' = Some (JString ''non_quiz'')
               then (Inr (non_quiz_response response_json), d)
               else if map_of response_json ''intent'' = Some (JString ''quiz_creation'')
               then quiz_creation L prompt current_user response_json d
               else (Inr unclear_response, d)
           | Inr v \<Rightarrow>
               (Inl (HTTPException 500
                      (''Quiz generation failed: '' @ quoted (type_name v)
                       @ '' object has no attribute '' @ quoted ''get'')), d)))"

section \<open>Instances for the examples\<close>

text \<open>
  The theorems below hold for every choice of the outside parameters. Where one is
  evaluated on a concrete input the parameters are the following instances.

  A JSON decoder for the grammar that \<^verbatim>\<open>json.loads\<close> accepts, without \<^verbatim>\<open>\u\<close> escapes; the
  first argument of the three parsing functions bounds the nesting and the number of
  elements by the length of the text. Every failure is reported with the same text.
\<close>

definition json_ws :: "char \<Rightarrow> bool" where
  "json_ws c = (c = CHR '' '' \<or> c = CHR 0x09 \<or> c = LF \<or> c = CHR 0x0D)"

definition is_digit :: "char \<Rightarrow> bool" where
  "is_digit c = (48 \<le> (of_char c :: nat) \<and> (of_char c :: nat) \<le> 57)"

definition int_of_digits :: "string \<Rightarrow> int" where
  "int_of_digits ds = foldl (\<lambda>a c. 10 * a + (int (of_char c) - 48)) 0 ds"

definition unescape :: "char \<Rightarrow> char option" where
  "unescape e =
     (if e = CHR 0x22 \<or> e = CHR 0x5C \<or> e = CHR ''/'' then Some e
      else if e = CHR ''b'' then Some (CHR 0x08)
      else if e = CHR ''f'' then Some (CHR 0x0C)
      else if e = CHR ''n'' then Some LF
      else if e = CHR ''r'' then Some (CHR 0x0D)
      else if e = CHR ''t'' then Some (CHR 0x09)
      else None)"

fun scan_string :: "string \<Rightarrow> string \<Rightarrow> (string \<times> string) option" where
  "scan_string acc [] = None"
| "scan_string acc [c] = (if c = CHR 0x22 then Some (rev acc, []) else None)"
| "scan_string acc (c # e # cs) =
     (if c = CHR 0x22 then Some (rev acc, e # cs)
      else if c = CHR 0x5C
      then (case unescape e of Some x \<Rightarrow> scan_string (x # acc) cs | None \<Rightarrow> None)
      else if (of_char c :: nat) < 32 then None
      else scan_string (c # acc) (e # cs))"

definition scan_number :: "string \<Rightarrow> (json \<times> string) option" where
  "scan_number s =
     (let neg = startswith s ''-'';
          s1 = (if neg then tl s else s);
          ds = (if startswith s1 ''0'' then ''0'' else takeWhile is_digit s1);
          s2 = drop (length ds) s1;
          fr = (if startswith s2 ''.'' then takeWhile is_digit (tl s2) else []);
          s3 = (if fr = [] then s2 else drop (Suc (length fr)) s2);
          sg = (if startswith s3 ''e'' \<or> startswith s3 ''E''
                then (if startswith (tl s3) ''+'' \<or> startswith (tl s3) ''-'' then take 2 s3 else take 1 s3)
                else []);
          ex = (if sg = [] then [] else takeWhile is_digit (drop (length sg) s3));
          s4 = (if ex = [] then s3 else drop (length sg + length ex) s3)
      in if ds = [] then None
         else if fr = [] \<and> ex = []
         then Some (JInt (if neg then - int_of_digits ds else int_of_digits ds), s4)
         else Some (JFloat (take (length s - length s4) s), s4))"

fun parse_value :: "nat \<Rightarrow> string \<Rightarrow> (json \<times> string) option"
  and parse_elements :: "nat \<Rightarrow> json list \<Rightarrow> string \<Rightarrow> (json list \<times> string) option"
  and parse_members :: "nat \<Rightarrow> row \<Rightarrow> string \<Rightarrow> (row \<times> string) option" where
  "parse_value 0 s = None"
| "parse_value (Suc n) s =
     (if startswith s [CHR 0x22]
      then map_option (\<lambda>(x, r). (JString x, r)) (scan_string [] (tl s))
      else if startswith s ''{''
      then (let r = dropWhile json_ws (tl s)
            in if startswith r ''}'' then Some (JObject [], tl r)
               else map_option (\<lambda>(kvs, r). (JObject kvs, r)) (parse_members n [] r))
      else if startswith s ''[''
      then (let r = dropWhile json_ws (tl s)
            in if startswith r '']'' then Some (JArray [], tl r)
               else map_option (\<lambda>(xs, r). (JArray xs, r)) (parse_elements n [] r))
      else if startswith s ''null'' then Some (JNull, drop 4 s)
      else if startswith s ''true'' then Some (JBool True, drop 4 s)
      else if startswith s ''false'' then Some (JBool False, drop 5 s)
      else if startswith s ''NaN'' then Some (JFloat ''NaN'', drop 3 s)
      else if startswith s ''Infinity'' then Some (JFloat ''Infinity'', drop 8 s)
      else if startswith s ''-Infinity'' then Some (JFloat ''-Infinity'', drop 9 s)
      else scan_number s)"
| "parse_elements 0 acc s = None"
| "parse_elements (Suc n) acc s =
     (case parse_value n s of
        None \<Rightarrow> None
      | Some (v, r) \<Rightarrow>
          (let r = dropWhile json_ws r
           in if startswith r '']'' then Some (acc @ [v], tl r)
              else if startswith r '',''
              then parse_elements n (acc @ [v]) (dropWhile json_ws (tl r))
              else None))"
| "parse_members 0 acc s = None"
| "parse_members (Suc n) acc s =
     (if \<not> startswith s [CHR 0x22] then None
      else
        (case scan_string [] (tl s) of
           None \<Rightarrow> None
         | Some (k, r) \<Rightarrow>
             (let r = dropWhile json_ws r
              in if \<not> startswith r '':'' then None
                 else
                   (case parse_value n (dropWhile json_ws (tl r)) of
                      None \<Rightarrow> None
                    | Some (v, r) \<Rightarrow>
                        (let r = dropWhile json_ws r
                         in if startswith r ''}'' then Some (AList.update k v acc, tl r)
                            else if startswith r '',''
                            then parse_members n (AList.update k v acc) (dropWhile json_ws (tl r))
                            else None)))))"

text \<open>\<^verbatim>\<open>json.loads\<close>: leading and trailing white space is skipped, anything else behind the
  value is an error.\<close>

definition json_decode :: "string \<Rightarrow> string + json" where
  "json_decode s =
     (case parse_value (Suc (length s)) (dropWhile json_ws s) of
        None \<Rightarrow> Inl ''JSONDecodeError''
      | Some (v, r) \<Rightarrow> if dropWhile json_ws r = [] then Inr v else Inl ''JSONDecodeError'')"

text \<open>Validation that accepts a value of exactly the field's type.\<close>

definition strict_str :: "json \<Rightarrow> string option" where
  "strict_str x = (case x of JString s \<Rightarrow> Some s | _ \<Rightarrow> None)"

definition strict_int :: "json \<Rightarrow> int option" where
  "strict_int x = (case x of JInt i \<Rightarrow> Some i | _ \<Rightarrow> None)"

definition strict_bool :: "json \<Rightarrow> bool option" where
  "strict_bool x = (case x of JBool b \<Rightarrow> Some b | _ \<Rightarrow> None)"

text \<open>The text of a string is the string; the examples format nothing else.\<close>

definition str_of :: "json \<Rightarrow> string" where
  "str_of x = (case x of JString s \<Rightarrow> s | _ \<Rightarrow> [])"

text \<open>\<^verbatim>\<open>str(i)\<close> for an integer, computed on integers.\<close>

function digits :: "int \<Rightarrow> string" where
  "digits i =
     (if i < 10 then [''0123456789'' ! nat i]
      else digits (i div 10) @ [''0123456789'' ! nat (i mod 10)])"
  by pat_completeness auto
termination
  by (relation "measure nat") auto

definition str_int :: "int \<Rightarrow> string" where
  "str_int i = (if i < 0 then ''-'' @ digits (- i) else digits i)"

text \<open>The datetime in IST, five and a half hours ahead of UTC, of an instant given in
  microseconds since 1970-01-01T00:00:00 UTC, which is 62135596800 seconds after
  0001-01-01T00:00:00.\<close>

definition ist :: "int \<Rightarrow> datetime" where
  "ist t = \<lparr>wall = t + 62135596800000000 + 19800000000, utcoffset = 19800000000\<rparr>"

text \<open>
  A clock that knows the timestamps of the examples: 2030-01-01T10:00:00+05:30 is
  1893472200 seconds after 1970-01-01T00:00:00 UTC, one hour later is 1893475800, and
  the records are created one microsecond after 2030-01-01T09:00:00+05:30. The
  conversion of 9999-12-31T23:59:59+00:00 to IST leaves the year 9999.
\<close>

definition example_times :: "(string \<times> datetime) list" where
  "example_times =
     [(''2030-01-01T09:00:00.000001+05:30'', ist 1893468600000001),
      (''2030-01-01T10:00:00+05:30'', ist 1893472200000000),
      (''2030-01-01T11:00:00+05:30'', ist 1893475800000000)]"

definition example_fromisoformat :: "string \<Rightarrow> parsed" where
  "example_fromisoformat s =
     (if s = ''9999-12-31T23:59:59+00:00'' then Raises ''date value out of range''
      else case map_of example_times s of Some dt \<Rightarrow> Parsed dt | None \<Rightarrow> ValueError)"

definition example_isoformat :: "datetime \<Rightarrow> string" where
  "example_isoformat dt =
     (case map_of (map (\<lambda>(s, t). (t, s)) example_times) dt of Some s \<Rightarrow> s | None \<Rightarrow> [])"

text \<open>The texts of the two overflows. The number of days of the timedelta is reported
  when it fits a 32-bit machine integer.\<close>

definition example_overflow_text :: "overflow \<Rightarrow> string" where
  "example_overflow_text x =
     (case x of
        TimedeltaRange m \<Rightarrow>
          if - 2147483648 \<le> m div 1440 \<and> m div 1440 \<le> 2147483647
          then ''days='' @ str_int (m div 1440) @ ''; must have magnitude <= 999999999''
          else ''Python int too large to convert to C int''
      | DateRange \<Rightarrow> ''date value out of range'')"

text \<open>A store that keeps the inserted rows with their table and refuses a second quiz
  with a title it already holds.\<close>

definition example_insert ::
  "(string \<times> row) list \<Rightarrow> string \<Rightarrow> row \<Rightarrow> (string + row) \<times> (string \<times> row) list" where
  "example_insert s table record =
     (if table = ''quizzes''
         \<and> list_ex (\<lambda>(t, r). t = ''quizzes'' \<and> map_of r ''title'' = map_of record ''title'') s
      then (Inl ''duplicate key value violates unique constraint'', s)
      else (Inr record, s @ [(table, record)]))"

text \<open>The instance: the request is handled at 2030-01-01T09:00:00+05:30.\<close>

definition example_ext :: "(string \<times> row) list ext" where
  "example_ext =
     \<lparr>json_loads = json_decode,
      validate_str = strict_str,
      validate_int = strict_int,
      validate_bool = strict_bool,
      validation_error = (\<lambda>kw. ''validation error for QuizCreate''),
      fromisoformat_ist = example_fromisoformat,
      isoformat = example_isoformat,
      overflow_text = example_overflow_text,
      py_str = str_of,
      current_time = ist 1893468600000000,
      created_at = ist 1893468600000001,
      uuid4 = ''0b5f4a7e-6c1d-4c3a-9f6e-2d1c8a7b9e10'',
      store_insert = example_insert\<rparr>"

definition empty_db :: "(string \<times> row) list db" where
  "empty_db = \<lparr>db_state = [], db_log = []\<rparr>"

definition example_user :: row where
  "example_user = [(''id'', JString ''user-1'')]"

definition example_question :: QuestionCreate where
  "example_question =
     \<lparr>question_text = ''Which gas do plants absorb?'', option_a = ''Oxygen'',
      option_b = ''Carbon dioxide'', option_c = ''Helium'', option_d = ''Neon'',
      correct_option = ''b''\<rparr>"

definition example_quiz :: QuizCreate where
  "example_quiz =
     \<lparr>title = ''Plants'', description = ''About plants'', is_trivia = True,
      topic = Some ''biology'', start_time = None, end_time = None, duration = 60,
      positive_mark = 1, negative_mark = 0, navigation_type = ''omni'',
      tab_switch_exit = True, difficulty = Some ''easy'', questions = [example_question]\<rparr>"

text \<open>A store that refuses every insert with the given text.\<close>

definition refusing_insert ::
  "string \<Rightarrow> (string \<times> row) list \<Rightarrow> string \<Rightarrow> row \<Rightarrow> (string + row) \<times> (string \<times> row) list" where
  "refusing_insert msg s table record = (Inl msg, s)"

section \<open>Notions of the specification\<close>

text \<open>A text has a brace span when some opening brace is followed, later, by a closing
  brace.\<close>

definition has_span :: "string \<Rightarrow> bool" where
  "has_span s = (CHR ''}'' \<in> set (dropWhile (\<lambda>c. c \<noteq> CHR ''{'') s))"

text \<open>The braces of a text, in order.\<close>

definition braces :: "string \<Rightarrow> string" where
  "braces s = filter (\<lambda>c. c = CHR ''{'' \<or> c = CHR ''}'') s"

text \<open>The constraints on a question in the order of the specification (the question
  text, the options A to D, the correct option), each with the text that names it,
  and the first one that a question violates.\<close>

definition constraints :: "QuestionCreate \<Rightarrow> (bool \<times> string) list" where
  "constraints q =
     [(length (question_text q) \<le> 500, ''Question text cannot exceed 500 characters''),
      (length (option_a q) \<le> 200, ''Option A cannot exceed 200 characters''),
      (length (option_b q) \<le> 200, ''Option B cannot exceed 200 characters''),
      (length (option_c q) \<le> 200, ''Option C cannot exceed 200 characters''),
      (length (option_d q) \<le> 200, ''Option D cannot exceed 200 characters''),
      (correct_option q \<in> {''a'', ''b'', ''c'', ''d''},
       ''Correct option must be '' @ quoted ''a'' @ '', '' @ quoted ''b'' @ '', ''
       @ quoted ''c'' @ '', or '' @ quoted ''d'')]"

definition first_violation :: "QuestionCreate \<Rightarrow> string option" where
  "first_violation q = map_option snd (find (\<lambda>(ok, msg). \<not> ok) (constraints q))"

text \<open>The router of the specification: the discriminator \<^verbatim>\<open>non_quiz\<close> yields \<open>NonQuiz\<close>
  with the answer's message or the fixed fallback, \<^verbatim>\<open>quiz_creation\<close> yields
  \<open>QuizCreation\<close> with the remaining fields, anything else, an absent discriminator
  included, yields \<open>Unclear\<close>.\<close>

datatype GeneratedIntent = NonQuiz json | QuizCreation row | Unclear

definition route :: "row \<Rightarrow> GeneratedIntent" where
  "route response_json =
     (if map_of response_json ''intent'' = Some (JString ''non_quiz'')
      then NonQuiz (case map_of response_json ''message'' of
                      Some m \<Rightarrow> m
                    | None \<Rightarrow> JString ''I'm a Quiz Creation Bot. Please describe the quiz you want to create.'')
      else if map_of response_json ''intent'' = Some (JString ''quiz_creation'')
      then QuizCreation (filter (\<lambda>(k, v). k \<noteq> ''intent'') response_json)
      else Unclear)"

text \<open>The message the pipeline gives for a request it rejects.\<close>

definition rejection_message :: "GeneratedIntent \<Rightarrow> json" where
  "rejection_message g =
     (case g of
        NonQuiz m \<Rightarrow> m
      | _ \<Rightarrow>
          JString (''I'm a Quiz Creation Bot. I can only help you create quizzes. ''
                   @ ''Please describe the quiz you want to create, for example: ''
                   @ quoted ''Create a quiz on Python programming with 10 questions'' @ ''.''))"

text \<open>The entries that a run adds to the log of insert calls all satisfy \<open>P\<close>.\<close>

definition adds_only ::
  "(string \<times> row \<times> (string + row) \<Rightarrow> bool) \<Rightarrow> 's db \<Rightarrow> 's db \<Rightarrow> bool" where
  "adds_only P d d' =
     (length (db_log d) \<le> length (db_log d')
      \<and> take (length (db_log d)) (db_log d') = db_log d
      \<and> list_all P (drop (length (db_log d)) (db_log d')))"

text \<open>The errors that the specification calls InvalidSchedule.\<close>

definition InvalidSchedule :: "HTTPException \<Rightarrow> bool" where
  "InvalidSchedule e =
     (status_code e = 400
      \<and> detail e \<in> {''Invalid start_time format. Use ISO format.'',
                     ''Start time must be in the future for scheduled quizzes'',
                     ''Invalid end_time format. Use ISO format.'',
                     ''Quiz duration too long for the specified end time''})"

text \<open>The two errors of the persister: DuplicateTitle, and PersistenceError with the
  store's message.\<close>

definition DuplicateTitle :: HTTPException where
  "DuplicateTitle =
     HTTPException 400 ''A quiz with this title already exists. Please choose a different title.''"

definition PersistenceError :: "string \<Rightarrow> HTTPException" where
  "PersistenceError msg = HTTPException 400 (''Failed to create quiz: '' @ msg)"

text \<open>The test of the specification's wording: the error text contains "duplicate" or
  "unique".\<close>

definition mentions_duplicate_or_unique :: "string \<Rightarrow> bool" where
  "mentions_duplicate_or_unique msg = (py_in ''duplicate'' msg \<or> py_in ''unique'' msg)"

text \<open>What the claim about the fixed fields says of one entry of the log.\<close>

definition fixed_flags :: "string \<times> row \<times> (string + row) \<Rightarrow> bool" where
  "fixed_flags entry =
     (case entry of
        (table, record, res) \<Rightarrow>
          table = ''quizzes'' \<longrightarrow>
            map_of record ''is_trivia'' = Some (JBool False)
            \<and> map_of record ''topic'' = Some JNull
            \<and> map_of record ''difficulty'' = Some JNull
            \<and> map_of record ''popularity'' = Some (JInt 0)
            \<and> map_of record ''is_active'' = Some (JBool True))"

text \<open>The log without the records: the table and the outcome of each insert call.\<close>

definition outcomes :: "'s db \<Rightarrow> (string \<times> (string + row)) list" where
  "outcomes d = map (\<lambda>(table, record, res). (table, res)) (db_log d)"

text \<open>A text in which no triple backtick stands directly behind or directly before a
  line feed. Every well-formed JSON text is one: a backtick can only stand inside a
  string, and a string holds no raw line feed.\<close>

definition fence_free :: "string \<Rightarrow> bool" where
  "fence_free s = (\<not> py_in (LF # ''```'') s \<and> \<not> py_in (''```'' @ [LF]) s)"

text \<open>
  A field of a payload is present and valid, or absent or valid, under a validator;
  its value is the validated one when it is present and valid, and the default
  otherwise. A payload is acceptable when \<^verbatim>\<open>title\<close> and \<^verbatim>\<open>description\<close> are present and
  valid and each of the other eleven fields is absent or valid.
\<close>

definition present_and_valid :: "(json \<Rightarrow> 'a option) \<Rightarrow> row \<Rightarrow> string \<Rightarrow> bool" where
  "present_and_valid v kw k = (case map_of kw k of None \<Rightarrow> False | Some x \<Rightarrow> v x \<noteq> None)"

definition absent_or_valid :: "(json \<Rightarrow> 'a option) \<Rightarrow> row \<Rightarrow> string \<Rightarrow> bool" where
  "absent_or_valid v kw k = (case map_of kw k of None \<Rightarrow> True | Some x \<Rightarrow> v x \<noteq> None)"

definition value_or :: "(json \<Rightarrow> 'a option) \<Rightarrow> 'a \<Rightarrow> row \<Rightarrow> string \<Rightarrow> 'a" where
  "value_or v dflt kw k =
     (case map_of kw k of
        None \<Rightarrow> dflt
      | Some x \<Rightarrow> (case v x of None \<Rightarrow> dflt | Some y \<Rightarrow> y))"

definition acceptable :: "'s ext \<Rightarrow> row \<Rightarrow> bool" where
  "acceptable L kw =
     (present_and_valid (validate_str L) kw ''title''
      \<and> present_and_valid (validate_str L) kw ''description''
      \<and> absent_or_valid (validate_bool L) kw ''is_trivia''
      \<and> absent_or_valid (optional_str L) kw ''topic''
      \<and> absent_or_valid (optional_str L) kw ''start_time''
      \<and> absent_or_valid (optional_str L) kw ''end_time''
      \<and> absent_or_valid (validate_int L) kw ''duration''
      \<and> absent_or_valid (validate_int L) kw ''positive_mark''
      \<and> absent_or_valid (validate_int L) kw ''negative_mark''
      \<and> absent_or_valid (validate_str L) kw ''navigation_type''
      \<and> absent_or_valid (validate_bool L) kw ''tab_switch_exit''
      \<and> absent_or_valid (optional_str L) kw ''difficulty''
      \<and> absent_or_valid (question_list L) kw ''questions'')"

section \<open>The log of insert calls\<close>

lemma adds_only_refl: "adds_only P d d"
  by (simp add: adds_only_def)

lemma adds_only_append:
  "adds_only P d d' \<longleftrightarrow> (\<exists>new. db_log d' = db_log d @ new \<and> list_all P new)"
proof
  assume "adds_only P d d'"
  then have "db_log d' = db_log d @ drop (length (db_log d)) (db_log d')"
    "list_all P (drop (length (db_log d)) (db_log d'))"
    by (auto simp: adds_only_def) (metis append_take_drop_id)
  then show "\<exists>new. db_log d' = db_log d @ new \<and> list_all P new" by blast
next
  assume "\<exists>new. db_log d' = db_log d @ new \<and> list_all P new"
  then show "adds_only P d d'" by (auto simp: adds_only_def)
qed

lemma adds_only_trans:
  assumes "adds_only P d d'" "adds_only P d' d''"
  shows "adds_only P d d''"
proof -
  from assms obtain n1 n2 where "db_log d' = db_log d @ n1" "list_all P n1"
    "db_log d'' = db_log d' @ n2" "list_all P n2"
    unfolding adds_only_append by blast
  then have "db_log d'' = db_log d @ (n1 @ n2) \<and> list_all P (n1 @ n2)" by simp
  then show ?thesis unfolding adds_only_append by blast
qed

lemma db_insert_adds:
  assumes "db_insert L table record d = (res, d')" "P (table, record, res)"
  shows "adds_only P d d'"
  using assms by (auto simp: db_insert_def adds_only_def split: prod.splits)


lemma adds_only_mono:
  assumes "adds_only P d d'" "\<And>e. P e \<Longrightarrow> Q e"
  shows "adds_only Q d d'"
  using assms by (auto simp: adds_only_def list_all_iff)

lemma insert_questions_log:
  "insert_questions L cq mark qs d = (r, d') \<Longrightarrow>
   adds_only (\<lambda>(t, record, res). t = ''questions'' \<and> (\<forall>msg. res = Inl msg \<longrightarrow> r = Inl msg)) d d'"
proof (induction qs arbitrary: d)
  case Nil
  then show ?case by (simp add: adds_only_refl)
next
  case (Cons q qs)
  let ?P = "\<lambda>(t, record, res). t = ''questions'' \<and> (\<forall>msg. res = Inl msg \<longrightarrow> r = Inl msg)"
  show ?case
  proof (cases "getitem cq ''id''")
    case (Inl e)
    with Cons.prems show ?thesis by (simp add: adds_only_refl)
  next
    case (Inr quiz_id)
    obtain res d1 where i: "db_insert L ''questions'' (question_record quiz_id q mark) d = (res, d1)"
      by (cases "db_insert L ''questions'' (question_record quiz_id q mark) d")
    show ?thesis
    proof (cases res)
      case (Inl e)
      with Cons.prems Inr i have "r = Inl e" "d' = d1" by simp_all
      with i Inl show ?thesis by (intro db_insert_adds [where res = res]) simp_all
    next
      case R: (Inr x)
      with Cons.prems Inr i have "insert_questions L cq mark qs d1 = (r, d')" by simp
      then have "adds_only ?P d1 d'" by (rule Cons.IH)
      moreover have "adds_only ?P d d1"
        using i R by (intro db_insert_adds [where res = res]) simp_all
      ultimately show ?thesis by (rule adds_only_trans [rotated])
    qed
  qed
qed

lemma persist_log:
  assumes "persist L q u st en d = (r, d')"
  shows "adds_only (\<lambda>(t, record, res).
            (t = ''questions'' \<or> (t = ''quizzes'' \<and> (\<exists>c. record = quiz_record L q c st en)))
            \<and> (\<forall>msg. res = Inl msg \<longrightarrow> r = Inl msg)) d d'"
proof (cases "getitem u ''id''")
  case (Inl e)
  with assms show ?thesis by (simp add: persist_def adds_only_refl)
next
  case (Inr c)
  let ?P = "\<lambda>(t, record, res).
            (t = ''questions'' \<or> (t = ''quizzes'' \<and> (\<exists>c. record = quiz_record L q c st en)))
            \<and> (\<forall>msg. res = Inl msg \<longrightarrow> r = Inl msg)"
  obtain res d1 where i: "db_insert L ''quizzes'' (quiz_record L q c st en) d = (res, d1)"
    by (cases "db_insert L ''quizzes'' (quiz_record L q c st en) d")
  show ?thesis
  proof (cases res)
    case (Inl e)
    with assms Inr i have "r = Inl e" "d' = d1" by (simp_all add: persist_def)
    with i Inl show ?thesis by (intro db_insert_adds [where res = res]) auto
  next
    case R: (Inr cq)
    have first: "adds_only ?P d d1"
      using i R by (intro db_insert_adds [where res = res]) auto
    obtain r2 d2 where l: "insert_questions L cq (positive_mark q) (questions q) d1 = (r2, d2)"
      by (cases "insert_questions L cq (positive_mark q) (questions q) d1")
    have d2: "d' = d2" using assms Inr i R l
      by (auto simp: persist_def split: sum.splits)
    have r2: "\<And>msg. r2 = Inl msg \<Longrightarrow> r = Inl msg" using assms Inr i R l
      by (auto simp: persist_def split: sum.splits)
    have "adds_only (\<lambda>(t, record, res). t = ''questions''
            \<and> (\<forall>msg. res = Inl msg \<longrightarrow> r2 = Inl msg)) d1 d2"
      using l by (rule insert_questions_log)
    then have "adds_only ?P d1 d2"
      by (rule adds_only_mono) (use r2 in auto)
    with first show ?thesis unfolding d2 by (rule adds_only_trans)
  qed
qed

lemma create_quiz_body_log:
  assumes "create_quiz_body L q u d = (r, d')"
  shows "adds_only (\<lambda>(t, record, res).
            (t = ''questions''
             \<or> (t = ''quizzes''
                 \<and> (\<exists>c st en. resolve_schedule L q = Inr (st, en)
                       \<and> record = quiz_record L q c st en)))
            \<and> (\<forall>msg. res = Inl msg \<longrightarrow> r = Inl (Other msg))) d d'"
proof (cases "\<exists>st en. length (questions q) \<le> 50 \<and> \<not> length (questions q) < 1
    \<and> validate_questions 0 (questions q) = Inr () \<and> resolve_schedule L q = Inr (st, en)")
  case False
  then have "d' = d" using assms
    by (auto simp: create_quiz_body_def split: if_splits sum.splits prod.splits)
  then show ?thesis by (simp add: adds_only_refl)
next
  case True
  then obtain st en where a: "length (questions q) \<le> 50" "\<not> length (questions q) < 1"
    "validate_questions 0 (questions q) = Inr ()" "resolve_schedule L q = Inr (st, en)"
    by blast
  obtain r1 d1 where p: "persist L q u st en d = (r1, d1)"
    by (cases "persist L q u st en d")
  have d1: "d' = d1" and r1: "\<And>msg. r1 = Inl msg \<Longrightarrow> r = Inl (Other msg)"
    using assms a p by (auto simp: create_quiz_body_def split: sum.splits)
  have "adds_only (\<lambda>(t, record, res).
            (t = ''questions'' \<or> (t = ''quizzes'' \<and> (\<exists>c. record = quiz_record L q c st en)))
            \<and> (\<forall>msg. res = Inl msg \<longrightarrow> r1 = Inl msg)) d d1"
    using p by (rule persist_log)
  then show ?thesis unfolding d1
    by (rule adds_only_mono) (use r1 a(4) in auto)
qed

lemma create_quiz_internal_log:
  assumes "create_quiz_internal L q u d = (r, d')"
  shows "adds_only (\<lambda>(t, record, res).
            (t = ''questions''
             \<or> (t = ''quizzes''
                 \<and> (\<exists>c st en. resolve_schedule L q = Inr (st, en)
                       \<and> record = quiz_record L q c st en)))
            \<and> (\<forall>msg. res = Inl msg \<longrightarrow> r = Inl (handle_exception (Other msg)))) d d'"
proof -
  obtain r1 d1 where b: "create_quiz_body L q u d = (r1, d1)"
    by (cases "create_quiz_body L q u d")
  have d1: "d' = d1" and r1: "\<And>msg. r1 = Inl (Other msg) \<Longrightarrow> r = Inl (handle_exception (Other msg))"
    using assms b by (auto simp: create_quiz_internal_def split: sum.splits)
  show ?thesis unfolding d1
    by (rule adds_only_mono [OF create_quiz_body_log [OF b]]) (use r1 in auto)
qed

section \<open>The sanitizer keeps the braces\<close>

lemma has_span_index:
  "has_span s \<longleftrightarrow> (\<exists>i j. i < j \<and> j < length s \<and> s ! i = CHR ''{'' \<and> s ! j = CHR ''}'')"
proof
  let ?P = "\<lambda>c. c \<noteq> CHR ''{''"
  let ?n = "length (takeWhile ?P s)"
  assume "has_span s"
  then have m: "CHR ''}'' \<in> set (drop ?n s)"
    by (simp add: has_span_def dropWhile_eq_drop)
  then obtain k where k: "k < length (drop ?n s)" "drop ?n s ! k = CHR ''}''"
    by (auto simp: in_set_conv_nth)
  from m have n: "?n < length s" by (cases "?n < length s") auto
  then have i: "s ! ?n = CHR ''{''"
    using nth_length_takeWhile [of ?P s] by simp
  have j: "s ! (?n + k) = CHR ''}''" "?n + k < length s" using k n by auto
  have "k \<noteq> 0"
  proof
    assume "k = 0"
    with i j(1) show False by simp
  qed
  then have "?n < ?n + k" by simp
  with i j show "\<exists>i j. i < j \<and> j < length s \<and> s ! i = CHR ''{'' \<and> s ! j = CHR ''}''"
    by blast
next
  let ?P = "\<lambda>c. c \<noteq> CHR ''{''"
  let ?n = "length (takeWhile ?P s)"
  assume "\<exists>i j. i < j \<and> j < length s \<and> s ! i = CHR ''{'' \<and> s ! j = CHR ''}''"
  then obtain i j where ij: "i < j" "j < length s" "s ! i = CHR ''{''" "s ! j = CHR ''}''"
    by blast
  have "?n \<le> i"
  proof (rule ccontr)
    assume "\<not> ?n \<le> i"
    then have "i < ?n" by simp
    then have "?P (s ! i)" using nth_mem [of i "takeWhile ?P s"] set_takeWhileD [of "takeWhile ?P s ! i" ?P s]
      by (simp add: takeWhile_nth)
    with ij(3) show False by simp
  qed
  then have "drop ?n s ! (j - ?n) = s ! j" "j - ?n < length (drop ?n s)" using ij by auto
  then have "s ! j \<in> set (drop ?n s)" by (metis nth_mem)
  then show "has_span s" using ij(4) by (simp add: has_span_def dropWhile_eq_drop)
qed

lemma filter_dropWhile_keep:
  "(\<And>x. \<not> Q x \<Longrightarrow> P x) \<Longrightarrow> filter P (dropWhile Q s) = dropWhile Q (filter P s)"
  by (induction s) auto

lemma has_span_braces: "has_span s = has_span (braces s)"
proof -
  have "braces (dropWhile (\<lambda>c. c \<noteq> CHR ''{'') s) = dropWhile (\<lambda>c. c \<noteq> CHR ''{'') (braces s)"
    unfolding braces_def by (rule filter_dropWhile_keep) simp
  moreover have "\<And>t. CHR ''}'' \<in> set t \<longleftrightarrow> CHR ''}'' \<in> set (braces t)"
    by (simp add: braces_def)
  ultimately show ?thesis unfolding has_span_def by metis
qed

lemma filter_dropWhile_drop:
  "(\<And>x. Q x \<Longrightarrow> \<not> P x) \<Longrightarrow> filter P (dropWhile Q s) = filter P s"
  by (induction s) auto

lemma braces_strip: "braces (strip s) = braces s"
proof -
  have sp: "\<And>x. isspace x \<Longrightarrow> \<not> (x = CHR ''{'' \<or> x = CHR ''}'')"
    by (auto simp: isspace_def)
  have "braces (strip s) = rev (braces (dropWhile isspace (rev (dropWhile isspace s))))"
    by (simp add: strip_def braces_def rev_filter)
  also have "\<dots> = rev (braces (rev (dropWhile isspace s)))"
    unfolding braces_def using filter_dropWhile_drop [of isspace, OF sp] by simp
  also have "\<dots> = braces (dropWhile isspace s)"
    by (simp add: braces_def rev_filter)
  also have "\<dots> = braces s"
    unfolding braces_def using filter_dropWhile_drop [of isspace, OF sp] by simp
  finally show ?thesis .
qed

lemma braces_drop:
  assumes "\<forall>x\<in>set (take n s). x \<noteq> CHR ''{'' \<and> x \<noteq> CHR ''}''"
  shows "braces (drop n s) = braces s"
proof -
  have "braces s = braces (take n s @ drop n s)" by simp
  also have "\<dots> = braces (take n s) @ braces (drop n s)"
    unfolding braces_def by (rule filter_append)
  also have "braces (take n s) = []"
    unfolding braces_def using assms by (auto simp: filter_empty_conv)
  finally show ?thesis by simp
qed

lemma lower_char_brace:
  "lower_char x \<in> set ''json'' \<Longrightarrow> x \<noteq> CHR ''{'' \<and> x \<noteq> CHR ''}''"
  by (auto simp: lower_char_def)

lemma lower_json_no_brace:
  assumes "lower t = ''json''"
  shows "\<forall>x\<in>set t. x \<noteq> CHR ''{'' \<and> x \<noteq> CHR ''}''"
proof
  fix x assume "x \<in> set t"
  then have "lower_char x \<in> set (lower t)" by (simp add: lower_def)
  then show "x \<noteq> CHR ''{'' \<and> x \<noteq> CHR ''}''"
    unfolding assms by (rule lower_char_brace)
qed

lemma ticks_no_brace:
  assumes "take 3 s = ''```''"
  shows "\<forall>x\<in>set (take 3 s). x \<noteq> CHR ''{'' \<and> x \<noteq> CHR ''}''"
  unfolding assms by simp

lemma braces_fence_open:
  assumes "fence_open s = Some r"
  shows "braces r = braces s"
proof -
  from assms have t: "take 3 s = ''```''"
    by (simp add: fence_open_def split: if_splits)
  have d3: "braces (drop 3 s) = braces s"
    by (rule braces_drop) (rule ticks_no_brace [OF t])
  show ?thesis
  proof (cases "lower (take 4 (drop 3 s)) = ''json''")
    case True
    then have r: "r = drop 4 (drop 3 s)"
      using assms t by (simp add: fence_open_def add.commute)
    have "braces (drop 4 (drop 3 s)) = braces (drop 3 s)"
      by (rule braces_drop) (rule lower_json_no_brace [OF True])
    with r d3 show ?thesis by simp
  next
    case False
    then have "r = drop 3 s" using assms t by (simp add: fence_open_def)
    with d3 show ?thesis by simp
  qed
qed

lemma braces_fence_close:
  assumes "fence_close s = Some r"
  shows "braces r = braces s"
proof -
  from assms have t: "take 3 s = ''```''" and r: "r = drop 3 s"
    by (simp_all add: fence_close_def split: if_splits)
  show ?thesis unfolding r
    by (rule braces_drop) (rule ticks_no_brace [OF t])
qed

lemma braces_sub_fences: "braces (sub_fences b s) = braces s"
proof (induction b s rule: sub_fences.induct)
  case (1 bol)
  then show ?case by simp
next
  case (2 bol c cs)
  show ?case
  proof (cases "if bol then fence_open (c # cs) else None")
    case (Some r)
    then have "fence_open (c # cs) = Some r" by (simp split: if_splits)
    then have "braces r = braces (c # cs)" by (rule braces_fence_open)
    moreover have "braces (sub_fences False r) = braces r" using Some by (rule "2.IH"(3))
    ultimately show ?thesis using Some by simp
  next
    case None
    show ?thesis
    proof (cases "fence_close (c # cs)")
      case (Some r)
      then have "braces r = braces (c # cs)" by (rule braces_fence_close)
      moreover have "braces (sub_fences False r) = braces r"
        using None Some by (rule "2.IH"(2))
      ultimately show ?thesis using None Some by simp
    next
      case N2: None
      have "braces (sub_fences (c = LF) cs) = braces cs"
        using None N2 by (rule "2.IH"(1))
      then show ?thesis using None N2 by (simp add: braces_def)
    qed
  qed
qed

lemma startswith_char: "startswith s [c] \<longleftrightarrow> s \<noteq> [] \<and> hd s = c"
  by (cases s) (auto simp: startswith_def)

lemma endswith_char: "endswith s [c] \<longleftrightarrow> s \<noteq> [] \<and> last s = c"
proof (cases "s = []")
  case True
  then show ?thesis by (simp add: endswith_def)
next
  case False
  then have "drop (length s - 1) s = [last s]"
    by (metis append_butlast_last_id append_eq_conv_conj length_butlast)
  with False show ?thesis by (cases s) (auto simp: endswith_def)
qed

lemma braces_tl_butlast:
  assumes "startswith s ''(''" "endswith s '')''"
  shows "braces (butlast (tl s)) = braces s"
proof -
  from assms obtain t where s: "s = CHR ''('' # t" and l: "last s = CHR '')''"
    by (cases s) (auto simp: startswith_char endswith_char)
  from s l have "t \<noteq> []" by auto
  then have "butlast t @ [last t] = t" by (rule append_butlast_last_id)
  moreover have "last t = CHR '')''" using s l \<open>t \<noteq> []\<close> by simp
  ultimately have "butlast t @ [CHR '')''] = t" by simp
  then have "braces t = braces (butlast t @ [CHR '')''])" by simp
  also have "\<dots> = braces (butlast t)" by (simp add: braces_def)
  finally have "braces t = braces (butlast t)" .
  then show ?thesis using s by (simp add: braces_def)
qed

lemma braces_strip_noise: "braces (strip_noise raw) = braces raw"
  by (simp add: strip_noise_def Let_def braces_strip braces_sub_fences braces_tl_butlast)

lemma search_braces_None: "search_braces s = None \<longleftrightarrow> \<not> has_span s"
  by (auto simp: search_braces_def has_span_def Let_def dropWhile_eq_Nil_conv)

lemma candidate_None: "candidate raw = None \<longleftrightarrow> \<not> has_span raw"
  using has_span_braces [of raw] has_span_braces [of "strip_noise raw"]
  by (simp add: candidate_def search_braces_None braces_strip_noise)

section \<open>What the sanitizer recovers\<close>

lemma take_append_char:
  assumes "take n (A @ c # r) = p" "length p = n" "c \<notin> set p"
  shows "n \<le> length A"
proof (rule ccontr)
  assume "\<not> n \<le> length A"
  then have "take n (A @ c # r) = A @ c # take (n - Suc (length A)) r"
    by (simp add: take_Cons')
  with assms(1) have "c \<in> set p" by auto
  with assms(3) show False by simp
qed

lemma ticks_in_prefix:
  assumes "take 3 (A @ c # r) = ''```''" "c \<noteq> CHR 0x60"
  shows "3 \<le> length A" "take 3 A = ''```''" "drop 3 (A @ c # r) = drop 3 A @ c # r"
proof -
  show l: "3 \<le> length A"
    by (rule take_append_char [OF assms(1)]) (use assms(2) in auto)
  then show "take 3 A = ''```''" using assms(1) by simp
  from l show "drop 3 (A @ c # r) = drop 3 A @ c # r" by simp
qed

lemma json_in_prefix:
  assumes "lower (take 4 (Y @ c # r)) = ''json''" "lower_char c \<notin> set ''json''"
  shows "4 \<le> length Y"
proof (rule ccontr)
  assume "\<not> 4 \<le> length Y"
  then have "take 4 (Y @ c # r) = Y @ c # take (4 - Suc (length Y)) r"
    by (simp add: take_Cons')
  then have "c \<in> set (take 4 (Y @ c # r))" by simp
  then have "lower_char c \<in> set (lower (take 4 (Y @ c # r)))"
    unfolding lower_def by (metis image_eqI set_map)
  with assms show False by simp
qed

lemma fence_open_prefix:
  assumes "fence_open (A @ c # r) = Some x" "c = CHR ''{'' \<or> c = CHR ''}''"
  shows "\<exists>k>0. k \<le> length A \<and> x = drop k A @ c # r"
proof -
  have nb: "c \<noteq> CHR 0x60" and nj: "lower_char c \<notin> set ''json''"
    using assms(2) by (auto simp: lower_char_def)
  from assms(1) have t: "take 3 (A @ c # r) = ''```''"
    by (simp add: fence_open_def split: if_splits)
  note p = ticks_in_prefix [OF t nb]
  show ?thesis
  proof (cases "lower (take 4 (drop 3 (A @ c # r))) = ''json''")
    case True
    then have "lower (take 4 (drop 3 A @ c # r)) = ''json''" using p(3) by simp
    then have "4 \<le> length (drop 3 A)" using nj by (rule json_in_prefix)
    then have l: "7 \<le> length A" by simp
    from True t assms(1) have "x = drop 7 (A @ c # r)" by (simp add: fence_open_def)
    with l have "x = drop 7 A @ c # r" by simp
    with l show ?thesis by (intro exI [of _ 7]) simp
  next
    case False
    with t assms(1) have "x = drop 3 (A @ c # r)" by (simp add: fence_open_def)
    with p have "x = drop 3 A @ c # r" by simp
    with p(1) show ?thesis by (intro exI [of _ 3]) simp
  qed
qed

lemma fence_close_prefix:
  assumes "fence_close (A @ c # r) = Some x" "c = CHR ''{'' \<or> c = CHR ''}''"
  shows "\<exists>k>0. k \<le> length A \<and> x = drop k A @ c # r"
proof -
  have nb: "c \<noteq> CHR 0x60" using assms(2) by auto
  from assms(1) have t: "take 3 (A @ c # r) = ''```''" and x: "x = drop 3 (A @ c # r)"
    by (simp_all add: fence_close_def split: if_splits)
  note p = ticks_in_prefix [OF t nb]
  from x p have "x = drop 3 A @ c # r" by simp
  with p(1) show ?thesis by (intro exI [of _ 3]) simp
qed

lemma sub_fences_brace:
  assumes "c = CHR ''{'' \<or> c = CHR ''}''"
  shows "sub_fences b (c # r) = c # sub_fences False r"
proof -
  have "c \<noteq> CHR 0x60" using assms by auto
  then have "fence_open (c # r) = None" "fence_close (c # r) = None"
    by (simp_all add: fence_open_def fence_close_def take_Cons')
  moreover have "c \<noteq> LF" using assms by auto
  ultimately show ?thesis by simp
qed

lemma sub_fences_prefix:
  assumes "c = CHR ''{'' \<or> c = CHR ''}''"
  shows "\<exists>A'. sub_fences b (A @ c # r) = A' @ c # sub_fences False r \<and> set A' \<subseteq> set A"
proof (induction "length A" arbitrary: A b rule: less_induct)
  case less
  show ?case
  proof (cases A)
    case Nil
    then show ?thesis using sub_fences_brace [OF assms] by simp
  next
    case (Cons a as)
    let ?s = "A @ c # r"
    have s: "?s = a # (as @ c # r)" using Cons by simp
    have jump: "\<exists>A'. sub_fences False x = A' @ c # sub_fences False r \<and> set A' \<subseteq> set A"
      if "\<exists>k>0. k \<le> length A \<and> x = drop k A @ c # r" for x
    proof -
      from that obtain k where k: "0 < k" "k \<le> length A" "x = drop k A @ c # r" by blast
      then have "length (drop k A) < length A" using Cons by simp
      from less [OF this, of False] obtain A' where
        "sub_fences False (drop k A @ c # r) = A' @ c # sub_fences False r"
        "set A' \<subseteq> set (drop k A)" by blast
      moreover have "set (drop k A) \<subseteq> set A" by (rule set_drop_subset)
      ultimately show ?thesis using k(3) by blast
    qed
    show ?thesis
    proof (cases "if b then fence_open ?s else None")
      case (Some x)
      then have "fence_open ?s = Some x" by (simp split: if_splits)
      from jump [OF fence_open_prefix [OF this assms]] Some show ?thesis
        unfolding s by simp
    next
      case None
      show ?thesis
      proof (cases "fence_close ?s")
        case (Some x)
        from jump [OF fence_close_prefix [OF Some assms]] None Some show ?thesis
          unfolding s by simp
      next
        case N2: None
        have "length as < length A" using Cons by simp
        from less [OF this, of "a = LF"] obtain A' where
          "sub_fences (a = LF) (as @ c # r) = A' @ c # sub_fences False r" "set A' \<subseteq> set as"
          by blast
        then have "sub_fences b ?s = (a # A') @ c # sub_fences False r \<and> set (a # A') \<subseteq> set A"
          using None N2 Cons unfolding s by auto
        then show ?thesis by blast
      qed
    qed
  qed
qed


lemma startswith_prefix:
  assumes "take (length q) X = q" "length q \<le> length X"
  shows "startswith (X @ Y) q"
  using assms by (simp add: startswith_def)

lemma sub_fences_inside:
  assumes "\<not> py_in (LF # ''```'') (p # m @ ''}'')" "\<not> py_in (''```'' @ [LF]) (p # m @ ''}'')"
    "b \<longrightarrow> p = LF"
  shows "sub_fences b (m @ CHR ''}'' # B) = m @ CHR ''}'' # sub_fences False B"
  using assms
proof (induction m arbitrary: p b)
  case Nil
  then show ?case using sub_fences_brace [of "CHR ''}''" b B] by simp
next
  case (Cons c m)
  let ?s = "(c # m) @ CHR ''}'' # B"
  have nb: "CHR ''}'' \<noteq> CHR 0x60" by simp
  have no_open: "fence_open ?s = None" if "b"
  proof (rule ccontr)
    assume "fence_open ?s \<noteq> None"
    then have t: "take 3 ?s = ''```''" by (simp add: fence_open_def split: if_splits)
    note q = ticks_in_prefix [OF t nb]
    from that Cons.prems(3) have "p = LF" by simp
    have "take 4 (p # c # m) = p # take 3 (c # m)" by (simp add: take_Cons')
    with q(2) \<open>p = LF\<close> have "take 4 (p # c # m) = LF # ''```''" by simp
    moreover have len: "length (LF # ''```'') = 4" by simp
    ultimately have "take (length (LF # ''```'')) (p # c # m) = LF # ''```''"
      by (simp only: len)
    moreover have "length (LF # ''```'') \<le> length (p # c # m)" using q(1) by simp
    ultimately have "startswith ((p # c # m) @ ''}'') (LF # ''```'')"
      by (rule startswith_prefix)
    then have "py_in (LF # ''```'') (p # (c # m) @ ''}'')" by simp
    with Cons.prems(1) show False by blast
  qed
  have no_close: "fence_close ?s = None"
  proof (rule ccontr)
    assume "fence_close ?s \<noteq> None"
    then have t: "take 3 ?s = ''```''" and h: "drop 3 ?s = [] \<or> hd (drop 3 ?s) = LF"
      by (simp_all add: fence_close_def split: if_splits)
    note q = ticks_in_prefix [OF t nb]
    define D where "D = drop 3 (c # m)"
    from h have "D @ CHR ''}'' # B = [] \<or> hd (D @ CHR ''}'' # B) = LF"
      unfolding q(3) D_def .
    then have h': "hd (D @ CHR ''}'' # B) = LF" by simp
    have ne: "D \<noteq> []"
    proof
      assume "D = []"
      with h' show False by simp
    qed
    with h' have "hd D = LF" by simp
    with ne have "take 1 D = [LF]" by (cases D) simp_all
    moreover have "take (3 + 1) (c # m) = take 3 (c # m) @ take 1 D"
      unfolding D_def by (rule take_add)
    ultimately have "take (3 + 1) (c # m) = ''```'' @ [LF]"
      using q(2) by (simp only:)
    moreover have len: "length (''```'' @ [LF]) = 3 + 1" by simp
    ultimately have "take (length (''```'' @ [LF])) (c # m) = ''```'' @ [LF]"
      by (simp only: len)
    moreover have "length D \<noteq> 0" using ne by simp
    then have "length (''```'' @ [LF]) \<le> length (c # m)"
      unfolding D_def by simp
    ultimately have "startswith ((c # m) @ ''}'') (''```'' @ [LF])"
      by (rule startswith_prefix)
    then have "py_in (''```'' @ [LF]) (p # (c # m) @ ''}'')" by simp
    with Cons.prems(2) show False by blast
  qed
  have "sub_fences (c = LF) (m @ CHR ''}'' # B) = m @ CHR ''}'' # sub_fences False B"
  proof (rule Cons.IH)
    show "\<not> py_in (LF # ''```'') (c # m @ ''}'')" using Cons.prems(1) by simp
    show "\<not> py_in (''```'' @ [LF]) (c # m @ ''}'')" using Cons.prems(2) by simp
    show "c = LF \<longrightarrow> c = LF" by simp
  qed
  moreover have "b \<Longrightarrow> fence_open (c # m @ CHR ''}'' # B) = None" using no_open by simp
  moreover have "fence_close (c # m @ CHR ''}'' # B) = None" using no_close by simp
  ultimately show ?case by (cases b) simp_all
qed

lemma set_fence_open: "fence_open s = Some x \<Longrightarrow> set x \<subseteq> set s"
  by (auto simp: fence_open_def split: if_splits dest: in_set_dropD)

lemma set_fence_close: "fence_close s = Some x \<Longrightarrow> set x \<subseteq> set s"
  by (auto simp: fence_close_def split: if_splits dest: in_set_dropD)

lemma set_sub_fences: "set (sub_fences b s) \<subseteq> set s"
proof (induction b s rule: sub_fences.induct)
  case (1 bol)
  then show ?case by simp
next
  case (2 bol c cs)
  show ?case
  proof (cases "if bol then fence_open (c # cs) else None")
    case (Some x)
    then have "fence_open (c # cs) = Some x" by (simp split: if_splits)
    then have "set x \<subseteq> set (c # cs)" by (rule set_fence_open)
    moreover have "set (sub_fences False x) \<subseteq> set x" using Some by (rule "2.IH"(3))
    ultimately show ?thesis using Some by auto
  next
    case None
    show ?thesis
    proof (cases "fence_close (c # cs)")
      case (Some x)
      then have "set x \<subseteq> set (c # cs)" by (rule set_fence_close)
      moreover have "set (sub_fences False x) \<subseteq> set x" using None Some by (rule "2.IH"(2))
      ultimately show ?thesis using None Some by auto
    next
      case N2: None
      have "set (sub_fences (c = LF) cs) \<subseteq> set cs" using None N2 by (rule "2.IH"(1))
      then show ?thesis using None N2 by auto
    qed
  qed
qed

lemma sub_fences_embedded:
  assumes "fence_free (CHR ''{'' # mid @ ''}'')"
  shows "\<exists>A' B'. sub_fences b (A @ (CHR ''{'' # mid @ ''}'') @ B) = A' @ (CHR ''{'' # mid @ ''}'') @ B'
           \<and> set A' \<subseteq> set A \<and> set B' \<subseteq> set B"
proof -
  obtain A' where a: "sub_fences b (A @ CHR ''{'' # (mid @ CHR ''}'' # B)) =
      A' @ CHR ''{'' # sub_fences False (mid @ CHR ''}'' # B)" "set A' \<subseteq> set A"
    using sub_fences_prefix [of "CHR ''{''" b A "mid @ CHR ''}'' # B"] by blast
  have "sub_fences False (mid @ CHR ''}'' # B) = mid @ CHR ''}'' # sub_fences False B"
    by (rule sub_fences_inside [where p = "CHR ''{''"]) (use assms in \<open>simp_all add: fence_free_def\<close>)
  with a have "sub_fences b (A @ (CHR ''{'' # mid @ ''}'') @ B) =
      A' @ (CHR ''{'' # mid @ ''}'') @ sub_fences False B"
    by simp
  moreover have "set (sub_fences False B) \<subseteq> set B" by (rule set_sub_fences)
  ultimately show ?thesis using a(2) by blast
qed


lemma dropWhile_embedded:
  assumes "obj \<noteq> []" "\<not> P (hd obj)"
  shows "\<exists>A'. dropWhile P (A @ obj @ B) = A' @ obj @ B \<and> set A' \<subseteq> set A"
proof (cases "\<forall>x\<in>set A. P x")
  case True
  then have "dropWhile P (A @ obj @ B) = dropWhile P (obj @ B)"
    by (simp add: dropWhile_append2)
  also have "\<dots> = obj @ B" using assms by (cases obj) simp_all
  finally have "dropWhile P (A @ obj @ B) = [] @ obj @ B" by simp
  then show ?thesis by (intro exI [of _ "[]"]) simp
next
  case False
  then obtain x where "x \<in> set A" "\<not> P x" by blast
  then have "dropWhile P (A @ obj @ B) = dropWhile P A @ obj @ B"
    by (rule dropWhile_append1)
  moreover have "set (dropWhile P A) \<subseteq> set A" by (auto dest: set_dropWhileD)
  ultimately show ?thesis by blast
qed

lemma strip_embedded:
  assumes "obj \<noteq> []" "\<not> isspace (hd obj)" "\<not> isspace (last obj)"
  shows "\<exists>A' B'. strip (A @ obj @ B) = A' @ obj @ B' \<and> set A' \<subseteq> set A \<and> set B' \<subseteq> set B"
proof -
  obtain A' where a: "dropWhile isspace (A @ obj @ B) = A' @ obj @ B" "set A' \<subseteq> set A"
    using dropWhile_embedded [of obj isspace A B] assms(1,2) by blast
  have "rev obj \<noteq> []" "\<not> isspace (hd (rev obj))"
    using assms(1,3) by (simp_all add: hd_rev)
  then obtain R where r: "dropWhile isspace (rev B @ rev obj @ rev A') = R @ rev obj @ rev A'"
    "set R \<subseteq> set (rev B)"
    using dropWhile_embedded [of "rev obj" isspace "rev B" "rev A'"] by blast
  have "strip (A @ obj @ B) = rev (dropWhile isspace (rev B @ rev obj @ rev A'))"
    using a(1) by (simp add: strip_def)
  also have "\<dots> = A' @ obj @ rev R" using r(1) by simp
  finally have "strip (A @ obj @ B) = A' @ obj @ rev R \<and> set A' \<subseteq> set A \<and> set (rev R) \<subseteq> set B"
    using a(2) r(2) by simp
  then show ?thesis by blast
qed

lemma paren_embedded:
  assumes "startswith (A @ obj @ B) ''(''" "endswith (A @ obj @ B) '')''"
    "obj \<noteq> []" "hd obj = CHR ''{''" "last obj = CHR ''}''"
  shows "butlast (tl (A @ obj @ B)) = tl A @ obj @ butlast B"
proof -
  have "A \<noteq> []"
  proof
    assume "A = []"
    with assms(1,3,4) show False by (simp add: startswith_char)
  qed
  moreover have "B \<noteq> []"
  proof
    assume "B = []"
    with assms(2,3,5) show False by (simp add: endswith_char)
  qed
  ultimately show ?thesis using assms(3) by (simp add: butlast_append)
qed

lemma search_embedded:
  assumes "CHR ''{'' \<notin> set A" "CHR ''}'' \<notin> set B"
  shows "search_braces (A @ (CHR ''{'' # mid @ ''}'') @ B) = Some (CHR ''{'' # mid @ ''}'')"
proof -
  let ?obj = "CHR ''{'' # mid @ ''}''"
  have "dropWhile (\<lambda>c. c \<noteq> CHR ''{'') (A @ ?obj @ B) = dropWhile (\<lambda>c. c \<noteq> CHR ''{'') (?obj @ B)"
    using assms(1) by (intro dropWhile_append2) auto
  then have t: "dropWhile (\<lambda>c. c \<noteq> CHR ''{'') (A @ ?obj @ B) = ?obj @ B" by simp
  have "dropWhile (\<lambda>c. c \<noteq> CHR ''}'') (rev B @ rev ?obj) = dropWhile (\<lambda>c. c \<noteq> CHR ''}'') (rev ?obj)"
    using assms(2) by (intro dropWhile_append2) auto
  then have "dropWhile (\<lambda>c. c \<noteq> CHR ''}'') (rev (?obj @ B)) = rev ?obj" by simp
  then have "rev (dropWhile (\<lambda>c. c \<noteq> CHR ''}'') (rev (?obj @ B))) = ?obj"
    by (simp only: rev_rev_ident)
  with t show ?thesis by (simp only: search_braces_def Let_def) simp
qed

lemma strip_noise_embedded:
  assumes "fence_free (CHR ''{'' # mid @ ''}'')" "CHR ''{'' \<notin> set A" "CHR ''}'' \<notin> set B"
  shows "\<exists>A' B'. strip_noise (A @ (CHR ''{'' # mid @ ''}'') @ B) = A' @ (CHR ''{'' # mid @ ''}'') @ B'
          \<and> CHR ''{'' \<notin> set A' \<and> CHR ''}'' \<notin> set B'"
proof -
  let ?obj = "CHR ''{'' # mid @ ''}''"
  have o: "?obj \<noteq> []" "hd ?obj = CHR ''{''" "last ?obj = CHR ''}''" by simp_all
  have sp: "\<not> isspace (hd ?obj)" "\<not> isspace (last ?obj)"
    unfolding o by (simp_all add: isspace_def)
  obtain A1 B1 where s1: "strip (A @ ?obj @ B) = A1 @ ?obj @ B1" "set A1 \<subseteq> set A" "set B1 \<subseteq> set B"
    using strip_embedded [of ?obj A B] o(1) sp by blast
  obtain A2 B2 where s2: "sub_fences True (A1 @ ?obj @ B1) = A2 @ ?obj @ B2"
    "set A2 \<subseteq> set A1" "set B2 \<subseteq> set B1"
    using sub_fences_embedded [OF assms(1), of True A1 B1] by blast
  obtain A3 B3 where s3: "strip (A2 @ ?obj @ B2) = A3 @ ?obj @ B3" "set A3 \<subseteq> set A2" "set B3 \<subseteq> set B2"
    using strip_embedded [of ?obj A2 B2] o(1) sp by blast
  have c3: "CHR ''{'' \<notin> set A3" "CHR ''}'' \<notin> set B3"
    using s1(2,3) s2(2,3) s3(2,3) assms(2,3) by auto
  show ?thesis
  proof (cases "startswith (A3 @ ?obj @ B3) ''('' \<and> endswith (A3 @ ?obj @ B3) '')''")
    case False
    then have "strip_noise (A @ ?obj @ B) = A3 @ ?obj @ B3"
      using s1(1) s2(1) s3(1) by (simp only: strip_noise_def Let_def if_False)
    with c3 show ?thesis by blast
  next
    case True
    then have "butlast (tl (A3 @ ?obj @ B3)) = tl A3 @ ?obj @ butlast B3"
      using o by (intro paren_embedded) simp_all
    moreover obtain A4 B4 where s4: "strip (tl A3 @ ?obj @ butlast B3) = A4 @ ?obj @ B4"
      "set A4 \<subseteq> set (tl A3)" "set B4 \<subseteq> set (butlast B3)"
      using strip_embedded [of ?obj "tl A3" "butlast B3"] o(1) sp by blast
    ultimately have "strip_noise (A @ ?obj @ B) = A4 @ ?obj @ B4"
      using True s1(1) s2(1) s3(1) by (simp only: strip_noise_def Let_def if_True simp_thms)
    moreover have "set (tl A3) \<subseteq> set A3" by (cases A3) auto
    then have "CHR ''{'' \<notin> set A4" using s4(2) c3(1) by auto
    moreover have "CHR ''}'' \<notin> set B4" using s4(3) c3(2) by (auto dest: in_set_butlastD)
    ultimately show ?thesis by blast
  qed
qed

text \<open>
  Claim C1, as amended. Let a text begin with an opening brace, end with a closing
  brace and have no triple backtick directly behind or before a line feed, as every
  well-formed JSON object has. Embedded in any surrounding text, fences and
  parentheses included, that has no opening brace before it and no closing brace
  behind it, it is the candidate that \<^verbatim>\<open>clean_gemini_json\<close> hands to the decoder, and what
  the decoder returns for it is what \<^verbatim>\<open>clean_gemini_json\<close> returns.
\<close>

theorem sanitizer_round_trip:
  "\<lbrakk>obj = CHR ''{'' # mid @ ''}''; fence_free obj; CHR ''{'' \<notin> set pre; CHR ''}'' \<notin> set post\<rbrakk>
   \<Longrightarrow> candidate (pre @ obj @ post) = Some obj
       \<and> (\<forall>v. loads obj = Inr v \<longrightarrow> clean_gemini_json loads (pre @ obj @ post) = Inr v)"
proof -
  assume a: "obj = CHR ''{'' # mid @ ''}''" "fence_free obj" "CHR ''{'' \<notin> set pre"
    "CHR ''}'' \<notin> set post"
  obtain A' B' where "strip_noise (pre @ obj @ post) = A' @ obj @ B'"
    "CHR ''{'' \<notin> set A'" "CHR ''}'' \<notin> set B'"
    using strip_noise_embedded [of mid pre post] a by blast
  then have c: "candidate (pre @ obj @ post) = Some obj"
    unfolding candidate_def a(1) using search_embedded by simp
  then show ?thesis by (simp add: clean_gemini_json_def)
qed


theorem sanitizer_round_trip_witness:
  \<open>''{"intent": "non_quiz"}'' = CHR ''{'' # ''"intent": "non_quiz"'' @ ''}''
   \<and> fence_free ''{"intent": "non_quiz"}''
   \<and> CHR ''{'' \<notin> set (''Here you go:'' @ [LF] @ ''```json'' @ [LF] @ ''('')
   \<and> CHR ''}'' \<notin> set ('')'' @ [LF] @ ''```'')
   \<and> json_decode ''{"intent": "non_quiz"}'' = Inr (JObject [(''intent'', JString ''non_quiz'')])
   \<and> candidate ((''Here you go:'' @ [LF] @ ''```json'' @ [LF] @ ''('') @ ''{"intent": "non_quiz"}''
                  @ ('')'' @ [LF] @ ''```'')) =
       Some ''{"intent": "non_quiz"}''
   \<and> clean_gemini_json json_decode
        ((''Here you go:'' @ [LF] @ ''```json'' @ [LF] @ ''('') @ ''{"intent": "non_quiz"}''
         @ ('')'' @ [LF] @ ''```'')) =
       Inr (JObject [(''intent'', JString ''non_quiz'')])\<close>
proof -
  let ?obj = \<open>''{"intent": "non_quiz"}''\<close>
  let ?mid = \<open>''"intent": "non_quiz"''\<close>
  let ?pre = "''Here you go:'' @ [LF] @ ''```json'' @ [LF] @ ''(''"
  let ?post = "'')'' @ [LF] @ ''```''"
  have h1: "?obj = CHR ''{'' # ?mid @ ''}''" by simp
  have h2: "fence_free ?obj" by code_simp
  have h3: "CHR ''{'' \<notin> set ?pre" by simp
  have h4: "CHR ''}'' \<notin> set ?post" by simp
  have h5: "json_decode ?obj = Inr (JObject [(''intent'', JString ''non_quiz'')])" by code_simp
  from sanitizer_round_trip [OF h1 h2 h3 h4, of json_decode] h5
  have "candidate (?pre @ ?obj @ ?post) = Some ?obj"
    "clean_gemini_json json_decode (?pre @ ?obj @ ?post) =
       Inr (JObject [(''intent'', JString ''non_quiz'')])"
    by blast+
  with h1 h2 h3 h4 h5 show ?thesis by blast
qed

theorem sanitizer_round_trip_counterexample:
  \<open>json_decode ''{"intent": "non_quiz"}'' = Inr (JObject [(''intent'', JString ''non_quiz'')])
   \<and> candidate (''Here is {your} answer: '' @ ''{"intent": "non_quiz"}'') =
       Some ''{your} answer: {"intent": "non_quiz"}''
   \<and> isl (clean_gemini_json json_decode (''Here is {your} answer: '' @ ''{"intent": "non_quiz"}''))
   \<and> clean_gemini_json json_decode (''Here is {your} answer: '' @ ''{"intent": "non_quiz"}'') \<noteq>
       Inr (JObject [(''intent'', JString ''non_quiz'')])\<close>
proof -
  have a: \<open>json_decode ''{"intent": "non_quiz"}'' = Inr (JObject [(''intent'', JString ''non_quiz'')])\<close>
    by code_simp
  have b: \<open>candidate (''Here is {your} answer: '' @ ''{"intent": "non_quiz"}'') =
       Some ''{your} answer: {"intent": "non_quiz"}''\<close>
    by code_simp
  have c: \<open>isl (clean_gemini_json json_decode (''Here is {your} answer: '' @ ''{"intent": "non_quiz"}''))\<close>
    by code_simp
  from c have d: \<open>clean_gemini_json json_decode (''Here is {your} answer: '' @ ''{"intent": "non_quiz"}'') \<noteq>
       Inr (JObject [(''intent'', JString ''non_quiz'')])\<close>
    by auto
  from a b c d show ?thesis by blast
qed

section \<open>The time resolver\<close>

lemma plus_minutes_Inr:
  "plus_minutes L dt m = Inr e \<Longrightarrow> e = dt\<lparr>wall := wall dt + m * 60000000\<rparr>"
  by (auto simp: plus_minutes_def timedelta_minutes_def shift_def Let_def
      split: option.splits if_splits)

lemma minus_minutes_Inr:
  "minus_minutes L dt m = Inr e \<Longrightarrow> e = dt\<lparr>wall := wall dt - m * 60000000\<rparr>"
  by (auto simp: minus_minutes_def timedelta_minutes_def shift_def Let_def
      split: option.splits if_splits)

lemma plus_minutes_in_range:
  assumes "in_range (wall dt)" "in_range (wall dt + m * 60000000)"
  shows "plus_minutes L dt m = Inr (dt\<lparr>wall := wall dt + m * 60000000\<rparr>)"
proof -
  have "timedelta_minutes m = Some (m * 60000000)"
    using assms by (simp add: timedelta_minutes_def in_range_def)
  then show ?thesis using assms(2) by (simp add: plus_minutes_def shift_def)
qed

lemma minus_minutes_in_range:
  assumes "in_range (wall dt)" "in_range (wall dt - m * 60000000)"
  shows "minus_minutes L dt m = Inr (dt\<lparr>wall := wall dt - m * 60000000\<rparr>)"
proof -
  have "timedelta_minutes m = Some (m * 60000000)"
    using assms by (simp add: timedelta_minutes_def in_range_def)
  then show ?thesis using assms(2) by (simp add: minus_minutes_def shift_def)
qed

lemma resolve_schedule_start:
  assumes "truthy (start_time q) = Some s"
  shows "resolve_schedule L q =
     (case fromisoformat_ist L (replace_Z s) of
        ValueError \<Rightarrow> Inl (Http (HTTPException 400 ''Invalid start_time format. Use ISO format.''))
      | Raises e \<Rightarrow> Inl (Other e)
      | Parsed start_dt \<Rightarrow>
          if datetime_le start_dt (current_time L)
          then Inl (Http (HTTPException 400
                           ''Start time must be in the future for scheduled quizzes''))
          else
            (case plus_minutes L start_dt (duration q) of
               Inl e \<Rightarrow> Inl (Other e)
             | Inr end_dt \<Rightarrow> Inr (Some (isoformat L start_dt), Some (isoformat L end_dt))))"
  using assms by (simp add: resolve_schedule_def)

lemma resolve_schedule_end:
  assumes "truthy (start_time q) = None" "truthy (end_time q) = Some s"
  shows "resolve_schedule L q =
     (case fromisoformat_ist L (replace_Z s) of
        ValueError \<Rightarrow> Inl (Http (HTTPException 400 ''Invalid end_time format. Use ISO format.''))
      | Raises e \<Rightarrow> Inl (Other e)
      | Parsed end_dt \<Rightarrow>
          (case minus_minutes L end_dt (duration q) of
             Inl e \<Rightarrow> Inl (Other e)
           | Inr start_dt \<Rightarrow>
               if datetime_le start_dt (current_time L)
               then Inl (Http (HTTPException 400
                                ''Quiz duration too long for the specified end time''))
               else Inr (Some (isoformat L start_dt), Some (isoformat L end_dt))))"
  using assms by (simp add: resolve_schedule_def)

lemma resolve_schedule_shape:
  assumes "resolve_schedule L q = Inr (a, b)"
  shows "(a = None \<and> b = None) \<or> (\<exists>t u. a = Some (isoformat L t) \<and> b = Some (isoformat L u))"
  using assms
  by (auto simp: resolve_schedule_def split: option.splits parsed.splits sum.splits if_splits)

lemma create_quiz_internal_schedule_error:
  assumes "questions q \<noteq> []" "length (questions q) \<le> 50"
    "validate_questions 0 (questions q) = Inr ()" "resolve_schedule L q = Inl e"
  shows "create_quiz_internal L q u d = (Inl (handle_exception e), d)"
  using assms by (simp add: create_quiz_internal_def create_quiz_body_def)


text \<open>
  Claim C2, as amended. The time resolver (lines 176-214 of \<^verbatim>\<open>create_quiz_internal\<close>), where
  a time is given when it is a non-empty string. Its result is a pair that is absent on
  both sides or the ISO text of an IST datetime on both sides. With a start time given:
  if it does not parse or is not strictly after now the error is an InvalidSchedule;
  otherwise the pair is the start and the start plus the duration, provided the sum can
  be formed. With only an end time given: if it does not parse the error is an
  InvalidSchedule; otherwise the start is the end minus the duration, provided the
  difference can be formed, and the error is an InvalidSchedule unless that start is
  strictly after now. With neither given both stay unset. The sum and the difference
  move the clock reading by the duration times sixty million microseconds and can be
  formed whenever the result lies in the years 1 to 9999. When the conversion to IST,
  the sum or the difference raises instead, the exception is no InvalidSchedule: it
  reaches the general handler of \<^verbatim>\<open>create_quiz_internal\<close> and nothing is written.
\<close>

theorem time_resolver_contract:
  "(\<forall>a b. resolve_schedule L q = Inr (a, b) \<longrightarrow>
      (a = None \<and> b = None) \<or> (\<exists>t u. a = Some (isoformat L t) \<and> b = Some (isoformat L u)))
   \<and> (\<forall>s. truthy (start_time q) = Some s \<longrightarrow>
        (case fromisoformat_ist L (replace_Z s) of
           ValueError \<Rightarrow> \<exists>e. resolve_schedule L q = Inl (Http e) \<and> InvalidSchedule e
         | Raises msg \<Rightarrow> resolve_schedule L q = Inl (Other msg)
         | Parsed start_dt \<Rightarrow>
             if datetime_le start_dt (current_time L)
             then \<exists>e. resolve_schedule L q = Inl (Http e) \<and> InvalidSchedule e
             else
               (case plus_minutes L start_dt (duration q) of
                  Inr end_dt \<Rightarrow>
                    resolve_schedule L q =
                      Inr (Some (isoformat L start_dt), Some (isoformat L end_dt))
                | Inl msg \<Rightarrow> resolve_schedule L q = Inl (Other msg))))
   \<and> (\<forall>s. truthy (start_time q) = None \<and> truthy (end_time q) = Some s \<longrightarrow>
        (case fromisoformat_ist L (replace_Z s) of
           ValueError \<Rightarrow> \<exists>e. resolve_schedule L q = Inl (Http e) \<and> InvalidSchedule e
         | Raises msg \<Rightarrow> resolve_schedule L q = Inl (Other msg)
         | Parsed end_dt \<Rightarrow>
             (case minus_minutes L end_dt (duration q) of
                Inr start_dt \<Rightarrow>
                  if datetime_le start_dt (current_time L)
                  then \<exists>e. resolve_schedule L q = Inl (Http e) \<and> InvalidSchedule e
                  else resolve_schedule L q =
                         Inr (Some (isoformat L start_dt), Some (isoformat L end_dt))
              | Inl msg \<Rightarrow> resolve_schedule L q = Inl (Other msg))))
   \<and> (truthy (start_time q) = None \<and> truthy (end_time q) = None \<longrightarrow>
        resolve_schedule L q = Inr (None, None))
   \<and> (\<forall>dt m r. (plus_minutes L dt m = Inr r \<longrightarrow> r = dt\<lparr>wall := wall dt + m * 60000000\<rparr>)
        \<and> (minus_minutes L dt m = Inr r \<longrightarrow> r = dt\<lparr>wall := wall dt - m * 60000000\<rparr>)
        \<and> (in_range (wall dt) \<and> in_range (wall dt + m * 60000000) \<longrightarrow>
             plus_minutes L dt m = Inr (dt\<lparr>wall := wall dt + m * 60000000\<rparr>))
        \<and> (in_range (wall dt) \<and> in_range (wall dt - m * 60000000) \<longrightarrow>
             minus_minutes L dt m = Inr (dt\<lparr>wall := wall dt - m * 60000000\<rparr>)))
   \<and> (\<forall>e. questions q \<noteq> [] \<and> length (questions q) \<le> 50
          \<and> validate_questions 0 (questions q) = Inr () \<and> resolve_schedule L q = Inl e \<longrightarrow>
        create_quiz_internal L q current_user d = (Inl (handle_exception e), d))"
proof (intro conjI allI impI)
  fix a b
  assume "resolve_schedule L q = Inr (a, b)"
  then show "(a = None \<and> b = None) \<or> (\<exists>t u. a = Some (isoformat L t) \<and> b = Some (isoformat L u))"
    by (rule resolve_schedule_shape)
next
  fix s
  assume "truthy (start_time q) = Some s"
  then show "case fromisoformat_ist L (replace_Z s) of
           ValueError \<Rightarrow> \<exists>e. resolve_schedule L q = Inl (Http e) \<and> InvalidSchedule e
         | Raises msg \<Rightarrow> resolve_schedule L q = Inl (Other msg)
         | Parsed start_dt \<Rightarrow>
             if datetime_le start_dt (current_time L)
             then \<exists>e. resolve_schedule L q = Inl (Http e) \<and> InvalidSchedule e
             else
               (case plus_minutes L start_dt (duration q) of
                  Inr end_dt \<Rightarrow>
                    resolve_schedule L q =
                      Inr (Some (isoformat L start_dt), Some (isoformat L end_dt))
                | Inl msg \<Rightarrow> resolve_schedule L q = Inl (Other msg))"
    by (auto simp: resolve_schedule_start InvalidSchedule_def split: parsed.splits sum.splits)
next
  fix s
  assume "truthy (start_time q) = None \<and> truthy (end_time q) = Some s"
  then show "case fromisoformat_ist L (replace_Z s) of
           ValueError \<Rightarrow> \<exists>e. resolve_schedule L q = Inl (Http e) \<and> InvalidSchedule e
         | Raises msg \<Rightarrow> resolve_schedule L q = Inl (Other msg)
         | Parsed end_dt \<Rightarrow>
             (case minus_minutes L end_dt (duration q) of
                Inr start_dt \<Rightarrow>
                  if datetime_le start_dt (current_time L)
                  then \<exists>e. resolve_schedule L q = Inl (Http e) \<and> InvalidSchedule e
                  else resolve_schedule L q =
                         Inr (Some (isoformat L start_dt), Some (isoformat L end_dt))
              | Inl msg \<Rightarrow> resolve_schedule L q = Inl (Other msg))"
    by (auto simp: resolve_schedule_end InvalidSchedule_def split: parsed.splits sum.splits)
next
  assume "truthy (start_time q) = None \<and> truthy (end_time q) = None"
  then show "resolve_schedule L q = Inr (None, None)"
    by (simp add: resolve_schedule_def)
next
  fix dt m r
  assume "plus_minutes L dt m = Inr r"
  then show "r = dt\<lparr>wall := wall dt + m * 60000000\<rparr>" by (rule plus_minutes_Inr)
next
  fix dt m r
  assume "minus_minutes L dt m = Inr r"
  then show "r = dt\<lparr>wall := wall dt - m * 60000000\<rparr>" by (rule minus_minutes_Inr)
next
  fix dt :: datetime and m :: int
  assume "in_range (wall dt) \<and> in_range (wall dt + m * 60000000)"
  then show "plus_minutes L dt m = Inr (dt\<lparr>wall := wall dt + m * 60000000\<rparr>)"
    by (simp add: plus_minutes_in_range)
next
  fix dt :: datetime and m :: int
  assume "in_range (wall dt) \<and> in_range (wall dt - m * 60000000)"
  then show "minus_minutes L dt m = Inr (dt\<lparr>wall := wall dt - m * 60000000\<rparr>)"
    by (simp add: minus_minutes_in_range)
next
  fix e
  assume "questions q \<noteq> [] \<and> length (questions q) \<le> 50
          \<and> validate_questions 0 (questions q) = Inr () \<and> resolve_schedule L q = Inl e"
  then show "create_quiz_internal L q current_user d = (Inl (handle_exception e), d)"
    by (simp add: create_quiz_internal_schedule_error)
qed


theorem time_resolver_contract_witness:
  "truthy (start_time (example_quiz\<lparr>start_time := Some ''2030-01-01T10:00:00+05:30''\<rparr>)) =
     Some ''2030-01-01T10:00:00+05:30''
   \<and> fromisoformat_ist example_ext (replace_Z ''2030-01-01T10:00:00+05:30'') =
       Parsed (ist 1893472200000000)
   \<and> \<not> datetime_le (ist 1893472200000000) (current_time example_ext)
   \<and> plus_minutes example_ext (ist 1893472200000000) 60 = Inr (ist 1893475800000000)
   \<and> resolve_schedule example_ext
        (example_quiz\<lparr>start_time := Some ''2030-01-01T10:00:00+05:30''\<rparr>) =
       Inr (Some ''2030-01-01T10:00:00+05:30'', Some ''2030-01-01T11:00:00+05:30'')
   \<and> truthy (start_time (example_quiz\<lparr>end_time := Some ''2030-01-01T11:00:00+05:30''\<rparr>)) = None
   \<and> truthy (end_time (example_quiz\<lparr>end_time := Some ''2030-01-01T11:00:00+05:30''\<rparr>)) =
       Some ''2030-01-01T11:00:00+05:30''
   \<and> resolve_schedule example_ext
        (example_quiz\<lparr>end_time := Some ''2030-01-01T11:00:00+05:30''\<rparr>) =
       Inr (Some ''2030-01-01T10:00:00+05:30'', Some ''2030-01-01T11:00:00+05:30'')
   \<and> truthy (start_time (example_quiz\<lparr>start_time := Some ''tomorrow''\<rparr>)) = Some ''tomorrow''
   \<and> fromisoformat_ist example_ext (replace_Z ''tomorrow'') = ValueError
   \<and> (\<exists>e. resolve_schedule example_ext (example_quiz\<lparr>start_time := Some ''tomorrow''\<rparr>) =
             Inl (Http e) \<and> InvalidSchedule e)
   \<and> truthy (start_time (example_quiz\<lparr>start_time := Some ''9999-12-31T23:59:59Z''\<rparr>)) =
       Some ''9999-12-31T23:59:59Z''
   \<and> fromisoformat_ist example_ext (replace_Z ''9999-12-31T23:59:59Z'') =
       Raises ''date value out of range''
   \<and> resolve_schedule example_ext (example_quiz\<lparr>start_time := Some ''9999-12-31T23:59:59Z''\<rparr>) =
       Inl (Other ''date value out of range'')
   \<and> questions (example_quiz\<lparr>start_time := Some ''9999-12-31T23:59:59Z''\<rparr>) \<noteq> []
   \<and> length (questions (example_quiz\<lparr>start_time := Some ''9999-12-31T23:59:59Z''\<rparr>)) \<le> 50
   \<and> validate_questions 0 (questions (example_quiz\<lparr>start_time := Some ''9999-12-31T23:59:59Z''\<rparr>)) =
       Inr ()
   \<and> create_quiz_internal example_ext (example_quiz\<lparr>start_time := Some ''9999-12-31T23:59:59Z''\<rparr>)
        example_user empty_db =
       (Inl (HTTPException 400 ''Failed to create quiz: date value out of range''), empty_db)
   \<and> truthy (start_time example_quiz) = None \<and> truthy (end_time example_quiz) = None
   \<and> resolve_schedule example_ext example_quiz = Inr (None, None)
   \<and> in_range (wall (ist 1893472200000000))
   \<and> in_range (wall (ist 1893472200000000) + 60 * 60000000)"
proof -
  let ?s = "''2030-01-01T10:00:00+05:30''"
  let ?e = "''2030-01-01T11:00:00+05:30''"
  let ?z = "''9999-12-31T23:59:59Z''"
  let ?q1 = "example_quiz\<lparr>start_time := Some ?s\<rparr>"
  let ?q2 = "example_quiz\<lparr>end_time := Some ?e\<rparr>"
  let ?q3 = "example_quiz\<lparr>start_time := Some ''tomorrow''\<rparr>"
  let ?q4 = "example_quiz\<lparr>start_time := Some ?z\<rparr>"
  let ?t1 = "ist 1893472200000000"
  let ?t2 = "ist 1893475800000000"
  note t1 = time_resolver_contract [of example_ext ?q1 example_user empty_db]
  note t2 = time_resolver_contract [of example_ext ?q2 example_user empty_db]
  note t3 = time_resolver_contract [of example_ext ?q3 example_user empty_db]
  note t4 = time_resolver_contract [of example_ext ?q4 example_user empty_db]
  note t5 = time_resolver_contract [of example_ext example_quiz example_user empty_db]
  have r1: "in_range (wall ?t1)" and r2: "in_range (wall ?t1 + 60 * 60000000)"
    by (simp_all add: in_range_def ist_def)
  from t1 r1 r2 have "plus_minutes example_ext ?t1 60 = Inr (?t1\<lparr>wall := wall ?t1 + 60 * 60000000\<rparr>)"
    by blast
  then have p1: "plus_minutes example_ext ?t1 60 = Inr ?t2" by (simp add: ist_def)
  have a1: "truthy (start_time ?q1) = Some ?s" by (simp add: truthy_def)
  have a2: "fromisoformat_ist example_ext (replace_Z ?s) = Parsed ?t1" by code_simp
  have a3: "\<not> datetime_le ?t1 (current_time example_ext)" by code_simp
  have a4: "isoformat example_ext ?t1 = ?s" "isoformat example_ext ?t2 = ?e" by code_simp+
  have a5: "duration ?q1 = 60" "duration ?q2 = 60" by (simp_all add: example_quiz_def)
  from t1 a1
  have "case fromisoformat_ist example_ext (replace_Z ?s) of
           ValueError \<Rightarrow> \<exists>e. resolve_schedule example_ext ?q1 = Inl (Http e) \<and> InvalidSchedule e
         | Raises msg \<Rightarrow> resolve_schedule example_ext ?q1 = Inl (Other msg)
         | Parsed start_dt \<Rightarrow>
             if datetime_le start_dt (current_time example_ext)
             then \<exists>e. resolve_schedule example_ext ?q1 = Inl (Http e) \<and> InvalidSchedule e
             else
               (case plus_minutes example_ext start_dt (duration ?q1) of
                  Inr end_dt \<Rightarrow>
                    resolve_schedule example_ext ?q1 =
                      Inr (Some (isoformat example_ext start_dt), Some (isoformat example_ext end_dt))
                | Inl msg \<Rightarrow> resolve_schedule example_ext ?q1 = Inl (Other msg))"
    by blast
  then have c1: "resolve_schedule example_ext ?q1 = Inr (Some ?s, Some ?e)"
    unfolding a2 a5 using a3 p1 a4 by simp
  have b1: "truthy (start_time ?q2) = None" by (simp add: truthy_def example_quiz_def)
  have b2: "truthy (end_time ?q2) = Some ?e" by (simp add: truthy_def)
  have b3: "fromisoformat_ist example_ext (replace_Z ?e) = Parsed ?t2" by code_simp
  have b4: "minus_minutes example_ext ?t2 60 = Inr ?t1" by code_simp
  from t2 b1 b2
  have "case fromisoformat_ist example_ext (replace_Z ?e) of
           ValueError \<Rightarrow> \<exists>e. resolve_schedule example_ext ?q2 = Inl (Http e) \<and> InvalidSchedule e
         | Raises msg \<Rightarrow> resolve_schedule example_ext ?q2 = Inl (Other msg)
         | Parsed end_dt \<Rightarrow>
             (case minus_minutes example_ext end_dt (duration ?q2) of
                Inr start_dt \<Rightarrow>
                  if datetime_le start_dt (current_time example_ext)
                  then \<exists>e. resolve_schedule example_ext ?q2 = Inl (Http e) \<and> InvalidSchedule e
                  else resolve_schedule example_ext ?q2 =
                         Inr (Some (isoformat example_ext start_dt), Some (isoformat example_ext end_dt))
              | Inl msg \<Rightarrow> resolve_schedule example_ext ?q2 = Inl (Other msg))"
    by blast
  then have c2: "resolve_schedule example_ext ?q2 = Inr (Some ?s, Some ?e)"
    unfolding b3 a5 using a3 b4 a4 by simp
  have d1: "truthy (start_time ?q3) = Some ''tomorrow''" by (simp add: truthy_def)
  have d2: "fromisoformat_ist example_ext (replace_Z ''tomorrow'') = ValueError" by code_simp
  from t3 d1
  have "case fromisoformat_ist example_ext (replace_Z ''tomorrow'') of
           ValueError \<Rightarrow> \<exists>e. resolve_schedule example_ext ?q3 = Inl (Http e) \<and> InvalidSchedule e
         | Raises msg \<Rightarrow> resolve_schedule example_ext ?q3 = Inl (Other msg)
         | Parsed start_dt \<Rightarrow>
             if datetime_le start_dt (current_time example_ext)
             then \<exists>e. resolve_schedule example_ext ?q3 = Inl (Http e) \<and> InvalidSchedule e
             else
               (case plus_minutes example_ext start_dt (duration ?q3) of
                  Inr end_dt \<Rightarrow>
                    resolve_schedule example_ext ?q3 =
                      Inr (Some (isoformat example_ext start_dt), Some (isoformat example_ext end_dt))
                | Inl msg \<Rightarrow> resolve_schedule example_ext ?q3 = Inl (Other msg))"
    by blast
  then have c3: "\<exists>e. resolve_schedule example_ext ?q3 = Inl (Http e) \<and> InvalidSchedule e"
    unfolding d2 by simp
  have e1: "truthy (start_time ?q4) = Some ?z" by (simp add: truthy_def)
  have e2: "fromisoformat_ist example_ext (replace_Z ?z) = Raises ''date value out of range''"
    by code_simp
  from t4 e1
  have "case fromisoformat_ist example_ext (replace_Z ?z) of
           ValueError \<Rightarrow> \<exists>e. resolve_schedule example_ext ?q4 = Inl (Http e) \<and> InvalidSchedule e
         | Raises msg \<Rightarrow> resolve_schedule example_ext ?q4 = Inl (Other msg)
         | Parsed start_dt \<Rightarrow>
             if datetime_le start_dt (current_time example_ext)
             then \<exists>e. resolve_schedule example_ext ?q4 = Inl (Http e) \<and> InvalidSchedule e
             else
               (case plus_minutes example_ext start_dt (duration ?q4) of
                  Inr end_dt \<Rightarrow>
                    resolve_schedule example_ext ?q4 =
                      Inr (Some (isoformat example_ext start_dt), Some (isoformat example_ext end_dt))
                | Inl msg \<Rightarrow> resolve_schedule example_ext ?q4 = Inl (Other msg))"
    by blast
  then have c4: "resolve_schedule example_ext ?q4 = Inl (Other ''date value out of range'')"
    unfolding e2 by simp
  have e3: "questions ?q4 \<noteq> []" "length (questions ?q4) \<le> 50"
    by (simp_all add: example_quiz_def)
  have e4: "validate_questions 0 (questions ?q4) = Inr ()" by code_simp
  have e5: "handle_exception (Other ''date value out of range'') =
      HTTPException 400 ''Failed to create quiz: date value out of range''"
    by code_simp
  from t4 e3 e4 c4
  have "create_quiz_internal example_ext ?q4 example_user empty_db =
      (Inl (handle_exception (Other ''date value out of range'')), empty_db)"
    by blast
  then have c5: "create_quiz_internal example_ext ?q4 example_user empty_db =
       (Inl (HTTPException 400 ''Failed to create quiz: date value out of range''), empty_db)"
    unfolding e5 .
  have f1: "truthy (start_time example_quiz) = None" "truthy (end_time example_quiz) = None"
    by (simp_all add: truthy_def example_quiz_def)
  from t5 f1 have c6: "resolve_schedule example_ext example_quiz = Inr (None, None)" by blast
  show ?thesis
    apply (intro conjI)
    apply (rule a1)
    apply (rule a2)
    apply (rule a3)
    apply (rule p1)
    apply (rule c1)
    apply (rule b1)
    apply (rule b2)
    apply (rule c2)
    apply (rule d1)
    apply (rule d2)
    apply (rule c3)
    apply (rule e1)
    apply (rule e2)
    apply (rule c4)
    apply (rule e3(1))
    apply (rule e3(2))
    apply (rule e4)
    apply (rule c5)
    apply (rule f1(1))
    apply (rule f1(2))
    apply (rule c6)
    apply (rule r1)
    apply (rule r2)
    done
qed

theorem time_resolver_contract_counterexample:
  "truthy (start_time (example_quiz\<lparr>start_time := Some ''2030-01-01T10:00:00+05:30'',
                                     duration := 10000000000\<rparr>)) =
     Some ''2030-01-01T10:00:00+05:30''
   \<and> truthy (end_time (example_quiz\<lparr>start_time := Some ''2030-01-01T10:00:00+05:30'',
                                     duration := 10000000000\<rparr>)) = None
   \<and> fromisoformat_ist example_ext (replace_Z ''2030-01-01T10:00:00+05:30'') =
       Parsed (ist 1893472200000000)
   \<and> \<not> datetime_le (ist 1893472200000000) (current_time example_ext)
   \<and> resolve_schedule example_ext
        (example_quiz\<lparr>start_time := Some ''2030-01-01T10:00:00+05:30'',
                      duration := 10000000000\<rparr>) =
       Inl (Other ''date value out of range'')
   \<and> create_quiz_internal example_ext
        (example_quiz\<lparr>start_time := Some ''2030-01-01T10:00:00+05:30'',
                      duration := 10000000000\<rparr>) example_user empty_db =
       (Inl (HTTPException 400 ''Failed to create quiz: date value out of range''), empty_db)
   \<and> \<not> InvalidSchedule (HTTPException 400 ''Failed to create quiz: date value out of range'')"
proof -
  let ?q = "example_quiz\<lparr>start_time := Some ''2030-01-01T10:00:00+05:30'',
                      duration := 10000000000\<rparr>"
  have "truthy (start_time ?q) = Some ''2030-01-01T10:00:00+05:30''" by (simp add: truthy_def)
  moreover have "truthy (end_time ?q) = None" by (simp add: truthy_def example_quiz_def)
  moreover have "fromisoformat_ist example_ext (replace_Z ''2030-01-01T10:00:00+05:30'') =
       Parsed (ist 1893472200000000)" by code_simp
  moreover have "\<not> datetime_le (ist 1893472200000000) (current_time example_ext)" by code_simp
  moreover have "resolve_schedule example_ext ?q = Inl (Other ''date value out of range'')"
    by code_simp
  moreover have "create_quiz_internal example_ext ?q example_user empty_db =
       (Inl (HTTPException 400 ''Failed to create quiz: date value out of range''), empty_db)"
    by code_simp
  moreover have "\<not> InvalidSchedule (HTTPException 400 ''Failed to create quiz: date value out of range'')"
    by (simp add: InvalidSchedule_def)
  ultimately show ?thesis by blast
qed

section \<open>The number of questions\<close>

lemma map_of_filter_key:
  "map_of (filter (\<lambda>(k, v). k \<noteq> a) xs) k = (if k = a then None else map_of xs k)"
  by (induction xs) auto

lemma success_response_count:
  "success_response L prompt quiz_obj result = Inr response \<Longrightarrow>
   map_of response ''questions_generated'' = Some (JInt (int (length (questions quiz_obj))))"
  by (auto simp: success_response_def split: sum.splits)

text \<open>
  Claim C3. For a parsed quiz of the intent \<^verbatim>\<open>quiz_creation\<close>: with no question the
  request fails with status 400 "Quiz must have at least 1 question" and nothing is
  written; with more than 20 questions everything goes on as for the quiz cut to its
  first 20 questions, so the cut itself raises nothing; and every successful response
  reports as \<^verbatim>\<open>questions_generated\<close> the length of the cut list.
\<close>

theorem question_count_policy:
  "(truthy response_text = Some text
      \<and> clean_gemini_json (json_loads L) text = Inr (JObject response_json)
      \<and> route response_json = QuizCreation kw \<and> QuizCreate_init L kw = Some quiz_obj \<longrightarrow>
    generate_quiz L prompt current_user response_text d =
      create_from_parsed L prompt current_user quiz_obj d)
   \<and> (questions quiz_obj = [] \<longrightarrow>
        create_from_parsed L prompt current_user quiz_obj d =
          (Inl (HTTPException 400 ''Quiz must have at least 1 question''), d))
   \<and> (length (questions quiz_obj) > 20 \<longrightarrow>
        create_from_parsed L prompt current_user quiz_obj d =
          create_from_parsed L prompt current_user
            (quiz_obj\<lparr>questions := take 20 (questions quiz_obj)\<rparr>) d)
   \<and> (\<forall>response d'.
        create_from_parsed L prompt current_user quiz_obj d = (Inr response, d') \<longrightarrow>
        map_of response ''questions_generated'' =
          Some (JInt (int (min 20 (length (questions quiz_obj))))))"
proof (intro conjI allI impI)
  assume a: "truthy response_text = Some text
      \<and> clean_gemini_json (json_loads L) text = Inr (JObject response_json)
      \<and> route response_json = QuizCreation kw \<and> QuizCreate_init L kw = Some quiz_obj"
  then have i: "map_of response_json ''intent'' = Some (JString ''quiz_creation'')"
    and k: "kw = filter (\<lambda>(k, v). k \<noteq> ''intent'') response_json"
    by (auto simp: route_def split: if_splits)
  from a i k show "generate_quiz L prompt current_user response_text d =
      create_from_parsed L prompt current_user quiz_obj d"
    by (simp add: generate_quiz_def quiz_creation_def)
next
  assume "questions quiz_obj = []"
  then show "create_from_parsed L prompt current_user quiz_obj d =
          (Inl (HTTPException 400 ''Quiz must have at least 1 question''), d)"
    by (simp add: create_from_parsed_def)
next
  assume l: "length (questions quiz_obj) > 20"
  then have "questions quiz_obj \<noteq> []" by auto
  with l show "create_from_parsed L prompt current_user quiz_obj d =
          create_from_parsed L prompt current_user
            (quiz_obj\<lparr>questions := take 20 (questions quiz_obj)\<rparr>) d"
    by (simp add: create_from_parsed_def)
next
  fix response d'
  assume "create_from_parsed L prompt current_user quiz_obj d = (Inr response, d')"
  then show "map_of response ''questions_generated'' =
          Some (JInt (int (min 20 (length (questions quiz_obj)))))"
    by (auto simp: create_from_parsed_def Let_def min_def
        dest!: success_response_count split: if_splits prod.splits sum.splits)
qed

theorem question_count_policy_witness:
  \<open>truthy (Some ''{"intent": "quiz_creation", "title": "Plants", "description": "None yet", "questions": []}'') =
     Some ''{"intent": "quiz_creation", "title": "Plants", "description": "None yet", "questions": []}''
   \<and> clean_gemini_json (json_loads example_ext)
        ''{"intent": "quiz_creation", "title": "Plants", "description": "None yet", "questions": []}'' =
       Inr (JObject [(''intent'', JString ''quiz_creation''), (''title'', JString ''Plants''),
                     (''description'', JString ''None yet''), (''questions'', JArray [])])
   \<and> route [(''intent'', JString ''quiz_creation''), (''title'', JString ''Plants''),
             (''description'', JString ''None yet''), (''questions'', JArray [])] =
       QuizCreation [(''title'', JString ''Plants''), (''description'', JString ''None yet''),
                     (''questions'', JArray [])]
   \<and> QuizCreate_init example_ext
        [(''title'', JString ''Plants''), (''description'', JString ''None yet''),
         (''questions'', JArray [])] =
       Some (example_quiz\<lparr>description := ''None yet'', is_trivia := False, topic := None,
                          difficulty := None, questions := []\<rparr>)
   \<and> generate_quiz example_ext ''Make a quiz'' example_user
        (Some ''{"intent": "quiz_creation", "title": "Plants", "description": "None yet", "questions": []}'')
        empty_db =
       (Inl (HTTPException 400 ''Quiz must have at least 1 question''), empty_db)
   \<and> length (questions (example_quiz\<lparr>questions := replicate 21 example_question\<rparr>)) > 20
   \<and> create_from_parsed example_ext ''Make a quiz'' example_user
        (example_quiz\<lparr>questions := replicate 21 example_question\<rparr>) empty_db =
       create_from_parsed example_ext ''Make a quiz'' example_user
        (example_quiz\<lparr>questions := take 20 (replicate 21 example_question)\<rparr>) empty_db
   \<and> (\<exists>response d'.
        create_from_parsed example_ext ''Make a quiz'' example_user
          (example_quiz\<lparr>questions := replicate 21 example_question\<rparr>) empty_db = (Inr response, d')
        \<and> map_of response ''questions_generated'' = Some (JInt 20)
        \<and> length (db_log d') = 21)\<close>
proof -
  let ?T = \<open>''{"intent": "quiz_creation", "title": "Plants", "description": "None yet", "questions": []}''\<close>
  let ?kw = "[(''title'', JString ''Plants''), (''description'', JString ''None yet''),
              (''questions'', JArray [])]"
  let ?R = "(''intent'', JString ''quiz_creation'') # ?kw"
  let ?q0 = "example_quiz\<lparr>description := ''None yet'', is_trivia := False, topic := None,
                          difficulty := None, questions := []\<rparr>"
  let ?many = "example_quiz\<lparr>questions := replicate 21 example_question\<rparr>"
  let ?run = "create_from_parsed example_ext ''Make a quiz'' example_user ?many empty_db"
  have h1: "truthy (Some ?T) = Some ?T" by (simp add: truthy_def)
  have h2: "clean_gemini_json (json_loads example_ext) ?T = Inr (JObject ?R)" by code_simp
  have h3: "route ?R = QuizCreation ?kw" by (simp add: route_def)
  have h4: "QuizCreate_init example_ext ?kw = Some ?q0" by code_simp
  have h5: "questions ?q0 = []" by simp
  have h6: "length (questions ?many) > 20" by simp
  note t0 = question_count_policy [of "Some ?T" ?T example_ext ?R ?kw ?q0 "''Make a quiz''"
      example_user empty_db]
  note t1 = question_count_policy [of "Some ?T" ?T example_ext ?R ?kw ?many "''Make a quiz''"
      example_user empty_db]
  from t0 h1 h2 h3 h4 h5
  have c1: "generate_quiz example_ext ''Make a quiz'' example_user (Some ?T) empty_db =
       (Inl (HTTPException 400 ''Quiz must have at least 1 question''), empty_db)"
    by simp
  from t1 h6 have c2: "?run = create_from_parsed example_ext ''Make a quiz'' example_user
        (?many\<lparr>questions := take 20 (questions ?many)\<rparr>) empty_db"
    by blast
  have e1: "isl (fst ?run) = False" by code_simp
  have e2: "length (db_log (snd ?run)) = 21" by code_simp
  obtain r d' where rd: "?run = (r, d')" by (cases ?run)
  with e1 obtain response where r: "r = Inr response" by (cases r) auto
  from t1 rd r have "map_of response ''questions_generated'' =
      Some (JInt (int (min 20 (length (questions ?many)))))"
    by blast
  then have c3: "map_of response ''questions_generated'' = Some (JInt 20)" by simp
  from e2 rd have c4: "length (db_log d') = 21" by simp
  from rd r c3 c4 have c5: "\<exists>response d'. ?run = (Inr response, d')
        \<and> map_of response ''questions_generated'' = Some (JInt 20) \<and> length (db_log d') = 21"
    by blast
  from c2 have c2': "?run = create_from_parsed example_ext ''Make a quiz'' example_user
        (example_quiz\<lparr>questions := take 20 (replicate 21 example_question)\<rparr>) empty_db"
    by simp
  show ?thesis
    apply (intro conjI)
    apply (rule h1)
    apply (rule h2)
    apply (rule h3)
    apply (rule h4)
    apply (rule c1)
    apply (rule h6)
    apply (rule c2')
    apply (rule c5)
    done
qed

section \<open>Errors of the persister\<close>

text \<open>
  Claim C4, as amended. Whenever an insert of the run fails with an error text, the
  result of \<^verbatim>\<open>create_quiz_internal\<close> is DuplicateTitle if the text contains "duplicate key
  value" or, after lowering, "unique", and otherwise PersistenceError with that text;
  the two errors are never equal.
\<close>

theorem persister_error_classification:
  "(\<forall>r d'. create_quiz_internal L quiz_data current_user d = (r, d') \<longrightarrow>
      adds_only
        (\<lambda>(table, record, res).
           \<forall>msg. res = Inl msg \<longrightarrow>
             r = Inl (if py_in ''duplicate key value'' msg \<or> py_in ''unique'' (lower msg)
                      then DuplicateTitle else PersistenceError msg))
        d d')
   \<and> PersistenceError msg' \<noteq> DuplicateTitle"
proof (intro conjI allI impI)
  fix r d'
  assume c: "create_quiz_internal L quiz_data current_user d = (r, d')"
  show "adds_only
        (\<lambda>(table, record, res).
           \<forall>msg. res = Inl msg \<longrightarrow>
             r = Inl (if py_in ''duplicate key value'' msg \<or> py_in ''unique'' (lower msg)
                      then DuplicateTitle else PersistenceError msg))
        d d'"
    by (rule adds_only_mono [OF create_quiz_internal_log [OF c]])
      (auto simp: handle_exception_def is_duplicate_def DuplicateTitle_def PersistenceError_def)
next
  show "PersistenceError msg' \<noteq> DuplicateTitle"
    by (simp add: PersistenceError_def DuplicateTitle_def)
qed

theorem persister_error_classification_witness:
  "adds_only
     (\<lambda>(table, record, res).
        \<forall>msg. res = Inl msg \<longrightarrow>
          fst (create_quiz_internal example_ext example_quiz example_user
                 (snd (create_quiz_internal example_ext example_quiz example_user empty_db))) =
            Inl (if py_in ''duplicate key value'' msg \<or> py_in ''unique'' (lower msg)
                 then DuplicateTitle else PersistenceError msg))
     (snd (create_quiz_internal example_ext example_quiz example_user empty_db))
     (snd (create_quiz_internal example_ext example_quiz example_user
             (snd (create_quiz_internal example_ext example_quiz example_user empty_db))))
   \<and> drop 2 (outcomes (snd (create_quiz_internal example_ext example_quiz example_user
             (snd (create_quiz_internal example_ext example_quiz example_user empty_db))))) =
       [(''quizzes'', Inl ''duplicate key value violates unique constraint'')]
   \<and> fst (create_quiz_internal example_ext example_quiz example_user
             (snd (create_quiz_internal example_ext example_quiz example_user empty_db))) =
       Inl DuplicateTitle"
proof -
  let ?d1 = "snd (create_quiz_internal example_ext example_quiz example_user empty_db)"
  let ?run = "create_quiz_internal example_ext example_quiz example_user ?d1"
  have h: "?run = (fst ?run, snd ?run)" by simp
  from persister_error_classification [of example_ext example_quiz example_user ?d1] h
  have c: "adds_only
     (\<lambda>(table, record, res).
        \<forall>msg. res = Inl msg \<longrightarrow>
          fst ?run = Inl (if py_in ''duplicate key value'' msg \<or> py_in ''unique'' (lower msg)
                 then DuplicateTitle else PersistenceError msg))
     ?d1 (snd ?run)"
    by blast
  have e1: "drop 2 (outcomes (snd ?run)) =
       [(''quizzes'', Inl ''duplicate key value violates unique constraint'')]"
    by code_simp
  have e2: "fst ?run = Inl DuplicateTitle" by code_simp
  from c e1 e2 show ?thesis by blast
qed

theorem persister_error_classification_counterexample:
  "mentions_duplicate_or_unique ''duplicate entry for title''
   \<and> outcomes (snd (create_quiz_internal
           (example_ext\<lparr>store_insert := refusing_insert ''duplicate entry for title''\<rparr>)
           example_quiz example_user empty_db)) =
       [(''quizzes'', Inl ''duplicate entry for title'')]
   \<and> fst (create_quiz_internal
           (example_ext\<lparr>store_insert := refusing_insert ''duplicate entry for title''\<rparr>)
           example_quiz example_user empty_db) =
       Inl (PersistenceError ''duplicate entry for title'')
   \<and> PersistenceError ''duplicate entry for title'' \<noteq> DuplicateTitle"
proof -
  have "mentions_duplicate_or_unique ''duplicate entry for title''" by code_simp
  moreover have "outcomes (snd (create_quiz_internal
           (example_ext\<lparr>store_insert := refusing_insert ''duplicate entry for title''\<rparr>)
           example_quiz example_user empty_db)) =
       [(''quizzes'', Inl ''duplicate entry for title'')]"
    by code_simp
  moreover have "fst (create_quiz_internal
           (example_ext\<lparr>store_insert := refusing_insert ''duplicate entry for title''\<rparr>)
           example_quiz example_user empty_db) =
       Inl (PersistenceError ''duplicate entry for title'')"
    by code_simp
  moreover have "PersistenceError ''duplicate entry for title'' \<noteq> DuplicateTitle"
    by (simp add: PersistenceError_def DuplicateTitle_def)
  ultimately show ?thesis by blast
qed

section \<open>The validator\<close>

lemma validate_lengths_first_violation:
  "validate_lengths q = (case first_violation q of None \<Rightarrow> Inr () | Some msg \<Rightarrow> Inl msg)"
  by (simp add: validate_lengths_def first_violation_def constraints_def)

lemma validate_lengths_ok:
  "validate_lengths q = Inr () \<longleftrightarrow>
     length (question_text q) \<le> 500 \<and> length (option_a q) \<le> 200
     \<and> length (option_b q) \<le> 200 \<and> length (option_c q) \<le> 200
     \<and> length (option_d q) \<le> 200 \<and> correct_option q \<in> {''a'', ''b'', ''c'', ''d''}"
  by (simp add: validate_lengths_def) 

lemma validate_questions_first:
  assumes "i < length qs" "\<forall>j<i. validate_lengths (qs ! j) = Inr ()"
    "validate_lengths (qs ! i) = Inl msg"
  shows "validate_questions k qs =
           Inl (HTTPException 400 (''Question '' @ str_nat (k + i + 1) @ '': '' @ msg))"
  using assms
proof (induction qs arbitrary: k i)
  case Nil
  then show ?case by simp
next
  case (Cons q qs)
  show ?case
  proof (cases i)
    case 0
    with Cons.prems show ?thesis by simp
  next
    case (Suc i')
    have q: "validate_lengths q = Inr ()" using Cons.prems(2) Suc by auto
    have "validate_questions (k + 1) qs =
           Inl (HTTPException 400 (''Question '' @ str_nat (k + 1 + i' + 1) @ '': '' @ msg))"
    proof (rule Cons.IH)
      show "i' < length qs" using Cons.prems(1) Suc by simp
      show "\<forall>j<i'. validate_lengths (qs ! j) = Inr ()"
      proof (intro allI impI)
        fix j assume "j < i'"
        then have "Suc j < i" using Suc by simp
        with Cons.prems(2) have "validate_lengths ((q # qs) ! Suc j) = Inr ()" by blast
        then show "validate_lengths (qs ! j) = Inr ()" by simp
      qed
      show "validate_lengths (qs ! i') = Inl msg" using Cons.prems(3) Suc by simp
    qed
    with q Suc show ?thesis by simp
  qed
qed

lemma validate_questions_ok:
  "validate_questions k qs = Inr () \<longleftrightarrow> (\<forall>q\<in>set qs. validate_lengths q = Inr ())"
  by (induction qs arbitrary: k) (auto split: sum.splits)

text \<open>
  Claim C5. \<^verbatim>\<open>validate_lengths\<close> fails exactly with the text of the first constraint the
  question violates, in the order question text (at most 500 characters), options A
  to D (at most 200 characters each), correct option (one of a, b, c, d), and passes
  exactly when all six hold. When \<^verbatim>\<open>create_quiz_internal\<close> validates a quiz (one that has
  between 1 and 50 questions), the first failing question makes it fail with status
  400 and the detail "Question n: " and that text, where n is the question's position
  counted from 1; the store is not touched.
\<close>

theorem validator_contract:
  "validate_lengths q = (case first_violation q of None \<Rightarrow> Inr () | Some msg \<Rightarrow> Inl msg)
   \<and> (validate_lengths q = Inr () \<longleftrightarrow>
        length (question_text q) \<le> 500 \<and> length (option_a q) \<le> 200
        \<and> length (option_b q) \<le> 200 \<and> length (option_c q) \<le> 200
        \<and> length (option_d q) \<le> 200 \<and> correct_option q \<in> {''a'', ''b'', ''c'', ''d''})
   \<and> (\<forall>i msg. i < length (questions quiz_data) \<and> length (questions quiz_data) \<le> 50
          \<and> (\<forall>j<i. validate_lengths (questions quiz_data ! j) = Inr ())
          \<and> validate_lengths (questions quiz_data ! i) = Inl msg \<longrightarrow>
        create_quiz_internal L quiz_data current_user d =
          (Inl (HTTPException 400 (''Question '' @ str_nat (i + 1) @ '': '' @ msg)), d))"
proof (intro conjI allI impI)
  show "validate_lengths q = (case first_violation q of None \<Rightarrow> Inr () | Some msg \<Rightarrow> Inl msg)"
    by (rule validate_lengths_first_violation)
  show "validate_lengths q = Inr () \<longleftrightarrow>
        length (question_text q) \<le> 500 \<and> length (option_a q) \<le> 200
        \<and> length (option_b q) \<le> 200 \<and> length (option_c q) \<le> 200
        \<and> length (option_d q) \<le> 200 \<and> correct_option q \<in> {''a'', ''b'', ''c'', ''d''}"
    by (rule validate_lengths_ok)
next
  fix i msg
  assume a: "i < length (questions quiz_data) \<and> length (questions quiz_data) \<le> 50
          \<and> (\<forall>j<i. validate_lengths (questions quiz_data ! j) = Inr ())
          \<and> validate_lengths (questions quiz_data ! i) = Inl msg"
  then have "validate_questions 0 (questions quiz_data) =
      Inl (HTTPException 400 (''Question '' @ str_nat (0 + i + 1) @ '': '' @ msg))"
    by (intro validate_questions_first) simp_all
  moreover have "\<not> length (questions quiz_data) > 50" "\<not> length (questions quiz_data) < 1"
    using a by auto
  ultimately show "create_quiz_internal L quiz_data current_user d =
          (Inl (HTTPException 400 (''Question '' @ str_nat (i + 1) @ '': '' @ msg)), d)"
    by (simp add: create_quiz_internal_def create_quiz_body_def handle_exception_def)
qed

theorem validator_contract_witness:
  "(1::nat) < length (questions (example_quiz\<lparr>questions :=
        [example_question, example_question\<lparr>correct_option := ''e''\<rparr>]\<rparr>))
   \<and> length (questions (example_quiz\<lparr>questions :=
        [example_question, example_question\<lparr>correct_option := ''e''\<rparr>]\<rparr>)) \<le> 50
   \<and> validate_lengths example_question = Inr ()
   \<and> validate_lengths (example_question\<lparr>correct_option := ''e''\<rparr>) =
       Inl (''Correct option must be '' @ quoted ''a'' @ '', '' @ quoted ''b'' @ '', ''
            @ quoted ''c'' @ '', or '' @ quoted ''d'')
   \<and> create_quiz_internal example_ext
        (example_quiz\<lparr>questions :=
           [example_question, example_question\<lparr>correct_option := ''e''\<rparr>]\<rparr>)
        example_user empty_db =
       (Inl (HTTPException 400
              (''Question 2: Correct option must be '' @ quoted ''a'' @ '', '' @ quoted ''b''
               @ '', '' @ quoted ''c'' @ '', or '' @ quoted ''d'')), empty_db)"
proof -
  let ?bad = "example_question\<lparr>correct_option := ''e''\<rparr>"
  let ?quiz = "example_quiz\<lparr>questions := [example_question, ?bad]\<rparr>"
  let ?msg = "''Correct option must be '' @ quoted ''a'' @ '', '' @ quoted ''b'' @ '', ''
            @ quoted ''c'' @ '', or '' @ quoted ''d''"
  have h0: "validate_lengths example_question = Inr ()"
    by (simp add: validate_lengths_def example_question_def)
  have h1: "validate_lengths ?bad = Inl ?msg"
    by (simp add: validate_lengths_def example_question_def)
  have h2: "(1::nat) < length (questions ?quiz) \<and> length (questions ?quiz) \<le> 50
      \<and> (\<forall>j<1. validate_lengths (questions ?quiz ! j) = Inr ())
      \<and> validate_lengths (questions ?quiz ! 1) = Inl ?msg"
    using h0 h1 by simp
  have s: "str_nat (1 + 1) = ''2''" by code_simp
  from validator_contract [of example_question ?quiz example_ext example_user empty_db] h2
  have "create_quiz_internal example_ext ?quiz example_user empty_db =
      (Inl (HTTPException 400 (''Question '' @ str_nat (1 + 1) @ '': '' @ ?msg)), empty_db)"
    by blast
  then show ?thesis using h0 h1 s by simp
qed

section \<open>Failure modes of the sanitizer\<close>

text \<open>
  Claim C6. A raw text in which no opening brace is followed by a closing brace makes
  \<^verbatim>\<open>clean_gemini_json\<close> fail with status 400 and the detail "Gemini returned no JSON
  block." followed by the raw text itself, unchanged. A raw text whose candidate span
  the decoder rejects makes it fail with status 400 and the detail "Gemini returned
  invalid JSON: ", the decoder's error text and the candidate span. This holds for
  every decoder.
\<close>

theorem clean_gemini_json_failures:
  "(\<not> has_span raw_text \<longrightarrow>
      clean_gemini_json loads raw_text =
        Inl (HTTPException 400
              (''Gemini returned no JSON block.'' @ [LF] @ ''Output:'' @ [LF] @ raw_text)))
   \<and> (\<forall>cleaned e. candidate raw_text = Some cleaned \<and> loads cleaned = Inl e \<longrightarrow>
          clean_gemini_json loads raw_text =
            Inl (HTTPException 400
                  (''Gemini returned invalid JSON: '' @ e @ [LF] @ ''Cleaned Output:'' @ [LF]
                   @ cleaned)))"
proof (intro conjI impI allI)
  assume "\<not> has_span raw_text"
  then have "candidate raw_text = None" by (simp add: candidate_None)
  then show "clean_gemini_json loads raw_text =
      Inl (HTTPException 400
            (''Gemini returned no JSON block.'' @ [LF] @ ''Output:'' @ [LF] @ raw_text))"
    by (simp add: clean_gemini_json_def)
next
  fix cleaned e
  assume "candidate raw_text = Some cleaned \<and> loads cleaned = Inl e"
  then show "clean_gemini_json loads raw_text =
      Inl (HTTPException 400
            (''Gemini returned invalid JSON: '' @ e @ [LF] @ ''Cleaned Output:'' @ [LF]
             @ cleaned))"
    by (simp add: clean_gemini_json_def)
qed

theorem clean_gemini_json_failures_witness:
  "\<not> has_span ''Sorry, I cannot help.''
   \<and> clean_gemini_json json_decode ''Sorry, I cannot help.'' =
       Inl (HTTPException 400
             (''Gemini returned no JSON block.'' @ [LF] @ ''Output:'' @ [LF]
              @ ''Sorry, I cannot help.''))
   \<and> candidate ''Here: {oops}'' = Some ''{oops}''
   \<and> json_decode ''{oops}'' = Inl ''JSONDecodeError''
   \<and> clean_gemini_json json_decode ''Here: {oops}'' =
       Inl (HTTPException 400
             (''Gemini returned invalid JSON: '' @ ''JSONDecodeError'' @ [LF]
              @ ''Cleaned Output:'' @ [LF] @ ''{oops}''))"
proof -
  have h1: "\<not> has_span ''Sorry, I cannot help.''" by code_simp
  have h2: "candidate ''Here: {oops}'' = Some ''{oops}''" by code_simp
  have h3: "json_decode ''{oops}'' = Inl ''JSONDecodeError''" by code_simp
  note t1 = clean_gemini_json_failures [of "''Sorry, I cannot help.''" json_decode]
  note t2 = clean_gemini_json_failures [of "''Here: {oops}''" json_decode]
  from t1 h1 have c1: "clean_gemini_json json_decode ''Sorry, I cannot help.'' =
       Inl (HTTPException 400
             (''Gemini returned no JSON block.'' @ [LF] @ ''Output:'' @ [LF]
              @ ''Sorry, I cannot help.''))" by blast
  from t2 h2 h3 have c2: "clean_gemini_json json_decode ''Here: {oops}'' =
       Inl (HTTPException 400
             (''Gemini returned invalid JSON: '' @ ''JSONDecodeError'' @ [LF]
              @ ''Cleaned Output:'' @ [LF] @ ''{oops}''))" by blast
  from h1 h2 h3 c1 c2 show ?thesis by blast
qed

section \<open>Requests that create no quiz\<close>

lemma route_cases:
  "route rj = Unclear \<or> (\<exists>m. route rj = NonQuiz m) \<or> (\<exists>kw. route rj = QuizCreation kw)"
  by (simp add: route_def)

text \<open>
  Claim C7. When the sanitizer has returned a dictionary that the router classifies as
  NonQuiz or Unclear, \<^verbatim>\<open>generate_quiz\<close> returns a response with \<^verbatim>\<open>is_quiz_request\<close> and
  \<^verbatim>\<open>success\<close> false and with the classification's message, and the store and the log of
  insert calls are what they were: no write was attempted.
\<close>

theorem rejection_frame:
  "truthy response_text = Some text
   \<and> clean_gemini_json (json_loads L) text = Inr (JObject response_json)
   \<and> (route response_json = Unclear \<or> (\<exists>m. route response_json = NonQuiz m)) \<longrightarrow>
   (\<exists>response.
      generate_quiz L prompt current_user response_text d = (Inr response, d)
      \<and> map_of response ''is_quiz_request'' = Some (JBool False)
      \<and> map_of response ''success'' = Some (JBool False)
      \<and> map_of response ''message'' = Some (rejection_message (route response_json))
      \<and> map_of response ''intent'' =
          Some (JString (if route response_json = Unclear then ''unclear'' else ''non_quiz'')))"
proof
  assume a: "truthy response_text = Some text
   \<and> clean_gemini_json (json_loads L) text = Inr (JObject response_json)
   \<and> (route response_json = Unclear \<or> (\<exists>m. route response_json = NonQuiz m))"
  show "\<exists>response.
      generate_quiz L prompt current_user response_text d = (Inr response, d)
      \<and> map_of response ''is_quiz_request'' = Some (JBool False)
      \<and> map_of response ''success'' = Some (JBool False)
      \<and> map_of response ''message'' = Some (rejection_message (route response_json))
      \<and> map_of response ''intent'' =
          Some (JString (if route response_json = Unclear then ''unclear'' else ''non_quiz''))"
  proof (cases "map_of response_json ''intent'' = Some (JString ''non_quiz'')")
    case True
    then have r: "route response_json = NonQuiz (case map_of response_json ''message'' of
                      Some m \<Rightarrow> m
                    | None \<Rightarrow> JString ''I'm a Quiz Creation Bot. Please describe the quiz you want to create.'')"
      by (simp add: route_def)
    have "generate_quiz L prompt current_user response_text d =
           (Inr (non_quiz_response response_json), d)"
      using a True by (simp add: generate_quiz_def)
    then show ?thesis using r
      by (simp add: non_quiz_response_def rejection_message_def)
  next
    case False
    with a have n: "map_of response_json ''intent'' \<noteq> Some (JString ''quiz_creation'')"
      by (auto simp: route_def split: if_splits)
    with False have r: "route response_json = Unclear" by (simp add: route_def)
    have "generate_quiz L prompt current_user response_text d = (Inr unclear_response, d)"
      using a False n by (simp add: generate_quiz_def)
    then show ?thesis using r
      by (simp add: unclear_response_def rejection_message_def)
  qed
qed

theorem rejection_frame_witness:
  \<open>truthy (Some ''{"intent": "non_quiz", "message": "Please describe a quiz."}'') =
     Some ''{"intent": "non_quiz", "message": "Please describe a quiz."}''
   \<and> clean_gemini_json (json_loads example_ext)
        ''{"intent": "non_quiz", "message": "Please describe a quiz."}'' =
       Inr (JObject [(''intent'', JString ''non_quiz''),
                     (''message'', JString ''Please describe a quiz.'')])
   \<and> route [(''intent'', JString ''non_quiz''), (''message'', JString ''Please describe a quiz.'')] =
       NonQuiz (JString ''Please describe a quiz.'')
   \<and> (\<exists>response.
        generate_quiz example_ext ''Hello'' example_user
          (Some ''{"intent": "non_quiz", "message": "Please describe a quiz."}'') empty_db =
          (Inr response, empty_db)
        \<and> map_of response ''is_quiz_request'' = Some (JBool False)
        \<and> map_of response ''message'' = Some (JString ''Please describe a quiz.''))\<close>
proof -
  let ?T = \<open>''{"intent": "non_quiz", "message": "Please describe a quiz."}''\<close>
  let ?R = "[(''intent'', JString ''non_quiz''), (''message'', JString ''Please describe a quiz.'')]"
  have h1: "truthy (Some ?T) = Some ?T" by (simp add: truthy_def)
  have h2: "clean_gemini_json (json_loads example_ext) ?T = Inr (JObject ?R)" by code_simp
  have h3: "route ?R = NonQuiz (JString ''Please describe a quiz.'')" by (simp add: route_def)
  from rejection_frame [of "Some ?T" ?T example_ext ?R "''Hello''" example_user empty_db] h1 h2 h3
  obtain response where
    "generate_quiz example_ext ''Hello'' example_user (Some ?T) empty_db = (Inr response, empty_db)"
    "map_of response ''is_quiz_request'' = Some (JBool False)"
    "map_of response ''message'' = Some (rejection_message (route ?R))"
    by blast
  then show ?thesis using h1 h2 h3 by (auto simp: rejection_message_def)
qed

section \<open>Fields of the quiz record that the input cannot set\<close>

lemma resolve_schedule_flags:
  "resolve_schedule L (q\<lparr>is_trivia := x, topic := y, difficulty := z\<rparr>) = resolve_schedule L q"
  by (simp add: resolve_schedule_def cong: option.case_cong parsed.case_cong sum.case_cong if_cong)

lemma persist_flags:
  "persist L (q\<lparr>is_trivia := x, topic := y, difficulty := z\<rparr>) u st en d = persist L q u st en d"
  by (simp add: persist_def quiz_record_def cong: sum.case_cong)

lemma create_from_parsed_log:
  assumes "create_from_parsed L prompt u q d = (r, d')"
  shows "adds_only fixed_flags d d'"
proof (cases "length (questions q) < 1")
  case True
  with assms show ?thesis by (simp add: create_from_parsed_def adds_only_refl)
next
  case False
  let ?q = "if length (questions q) > 20 then q\<lparr>questions := take 20 (questions q)\<rparr> else q"
  obtain r1 d1 where c: "create_quiz_internal L ?q u d = (r1, d1)"
    by (cases "create_quiz_internal L ?q u d")
  have "d' = d1" using assms False c
    by (auto simp: create_from_parsed_def Let_def split: sum.splits if_splits)
  then show ?thesis
    by (auto intro!: adds_only_mono [OF create_quiz_internal_log [OF c]]
        simp: fixed_flags_def quiz_record_def)
qed

lemma generate_quiz_log:
  assumes "generate_quiz L prompt u rt d = (r, d')"
  shows "adds_only fixed_flags d d'"
proof (cases "\<exists>text rj q. truthy rt = Some text
    \<and> clean_gemini_json (json_loads L) text = Inr (JObject rj)
    \<and> map_of rj ''intent'' \<noteq> Some (JString ''non_quiz'')
    \<and> map_of rj ''intent'' = Some (JString ''quiz_creation'')
    \<and> QuizCreate_init L (filter (\<lambda>(k, v). k \<noteq> ''intent'') rj) = Some q")
  case True
  then obtain t0 rj q where "truthy rt = Some t0"
    "clean_gemini_json (json_loads L) t0 = Inr (JObject rj)"
    "map_of rj ''intent'' \<noteq> Some (JString ''non_quiz'')"
    "map_of rj ''intent'' = Some (JString ''quiz_creation'')"
    "QuizCreate_init L (filter (\<lambda>(k, v). k \<noteq> ''intent'') rj) = Some q"
    by blast
  with assms have "create_from_parsed L prompt u q d = (r, d')"
    by (simp add: generate_quiz_def quiz_creation_def)
  then show ?thesis by (rule create_from_parsed_log)
next
  case False
  with assms have "d' = d"
    by (auto simp: generate_quiz_def quiz_creation_def Let_def
        split: option.splits sum.splits json.splits if_splits)
  then show ?thesis by (simp add: adds_only_refl)
qed

text \<open>
  Claim C8. Every record that the pipeline hands to the store for the table of quizzes
  has \<^verbatim>\<open>is_trivia\<close> false, \<^verbatim>\<open>topic\<close> and \<^verbatim>\<open>difficulty\<close> null, \<^verbatim>\<open>popularity\<close> 0 and \<^verbatim>\<open>is_active\<close>
  true; and the run does not depend on the three values of the parsed quiz: with any
  other \<^verbatim>\<open>is_trivia\<close>, \<^verbatim>\<open>topic\<close> and \<^verbatim>\<open>difficulty\<close> the result, the store and the log are the
  same.
\<close>

theorem persisted_flags:
  "(\<forall>r d'. create_quiz_internal L quiz_data current_user d = (r, d') \<longrightarrow>
      adds_only fixed_flags d d')
   \<and> (\<forall>r d'. generate_quiz L prompt current_user response_text d = (r, d') \<longrightarrow>
        adds_only fixed_flags d d')
   \<and> create_quiz_internal L (quiz_data\<lparr>is_trivia := x, topic := y, difficulty := z\<rparr>)
        current_user d =
      create_quiz_internal L quiz_data current_user d"
proof (intro conjI allI impI)
  fix r d'
  assume "create_quiz_internal L quiz_data current_user d = (r, d')"
  then show "adds_only fixed_flags d d'"
    by (auto intro!: adds_only_mono [OF create_quiz_internal_log]
        simp: fixed_flags_def quiz_record_def)
next
  fix r d'
  assume "generate_quiz L prompt current_user response_text d = (r, d')"
  then show "adds_only fixed_flags d d'" by (rule generate_quiz_log)
next
  show "create_quiz_internal L (quiz_data\<lparr>is_trivia := x, topic := y, difficulty := z\<rparr>)
        current_user d =
      create_quiz_internal L quiz_data current_user d"
    by (simp add: create_quiz_internal_def create_quiz_body_def resolve_schedule_flags
        persist_flags cong: sum.case_cong)
qed

theorem persisted_flags_witness:
  "is_trivia example_quiz = True \<and> topic example_quiz = Some ''biology''
   \<and> difficulty example_quiz = Some ''easy''
   \<and> adds_only fixed_flags empty_db
        (snd (create_quiz_internal example_ext example_quiz example_user empty_db))
   \<and> map (\<lambda>(table, record, res). (table, map_of record ''is_trivia'', map_of record ''topic'',
                                   map_of record ''difficulty''))
        (db_log (snd (create_quiz_internal example_ext example_quiz example_user empty_db))) =
       [(''quizzes'', Some (JBool False), Some JNull, Some JNull),
        (''questions'', None, None, None)]"
proof -
  let ?run = "create_quiz_internal example_ext example_quiz example_user empty_db"
  have h: "?run = (fst ?run, snd ?run)" by simp
  from persisted_flags [of example_ext example_quiz example_user empty_db] h
  have c: "adds_only fixed_flags empty_db (snd ?run)" by blast
  have e: "map (\<lambda>(table, record, res). (table, map_of record ''is_trivia'', map_of record ''topic'',
                                   map_of record ''difficulty'')) (db_log (snd ?run)) =
       [(''quizzes'', Some (JBool False), Some JNull, Some JNull),
        (''questions'', None, None, None)]"
    by code_simp
  have f: "is_trivia example_quiz = True \<and> topic example_quiz = Some ''biology''
   \<and> difficulty example_quiz = Some ''easy''"
    by (simp add: example_quiz_def)
  from c e f show ?thesis by blast
qed

section \<open>A start time takes precedence over an end time\<close>

lemma resolve_schedule_end_ignored:
  assumes "truthy (start_time q) = Some s"
  shows "resolve_schedule L (q\<lparr>end_time := e\<rparr>) = resolve_schedule L q"
proof -
  have "truthy (start_time (q\<lparr>end_time := e\<rparr>)) = Some s" using assms by simp
  from resolve_schedule_start [OF this, of L] resolve_schedule_start [OF assms, of L]
  show ?thesis by (simp cong: parsed.case_cong sum.case_cong if_cong)
qed

lemma quiz_record_times:
  "map_of (quiz_record L q c st en) ''start_time'' = Some (opt_json st)"
  "map_of (quiz_record L q c st en) ''end_time'' = Some (opt_json en)"
  by (simp_all add: quiz_record_def)

lemma persist_end_ignored:
  "persist L (q\<lparr>end_time := e\<rparr>) u st en d = persist L q u st en d"
  by (simp add: persist_def quiz_record_def cong: sum.case_cong)

lemma resolve_schedule_start_Inr:
  assumes "truthy (start_time q) = Some s" "resolve_schedule L q = Inr (st, en)"
  shows "\<exists>start_dt end_dt. fromisoformat_ist L (replace_Z s) = Parsed start_dt
           \<and> plus_minutes L start_dt (duration q) = Inr end_dt
           \<and> st = Some (isoformat L start_dt) \<and> en = Some (isoformat L end_dt)"
  using assms(2) unfolding resolve_schedule_start [OF assms(1)]
  by (auto split: parsed.splits sum.splits if_splits)

text \<open>
  Claim C9. When a start time is given, an end time given with it is ignored: with any
  other end time, or none, \<^verbatim>\<open>create_quiz_internal\<close> returns the same result and leaves the
  same store and log. Every record it hands to the store for the table of quizzes has
  as \<^verbatim>\<open>start_time\<close> the parsed start and as \<^verbatim>\<open>end_time\<close> the parsed start plus the duration.
\<close>

theorem start_time_precedence:
  "truthy (start_time q) = Some s \<longrightarrow>
     create_quiz_internal L (q\<lparr>end_time := e\<rparr>) current_user d =
       create_quiz_internal L q current_user d
     \<and> (\<forall>r d'. create_quiz_internal L q current_user d = (r, d') \<longrightarrow>
          adds_only
            (\<lambda>(table, record, res).
               table = ''quizzes'' \<longrightarrow>
                 (\<exists>start_dt end_dt. fromisoformat_ist L (replace_Z s) = Parsed start_dt
                    \<and> plus_minutes L start_dt (duration q) = Inr end_dt
                    \<and> end_dt = start_dt\<lparr>wall := wall start_dt + duration q * 60000000\<rparr>
                    \<and> map_of record ''start_time'' = Some (JString (isoformat L start_dt))
                    \<and> map_of record ''end_time'' = Some (JString (isoformat L end_dt))))
            d d')"
proof (intro impI conjI allI)
  assume a: "truthy (start_time q) = Some s"
  show "create_quiz_internal L (q\<lparr>end_time := e\<rparr>) current_user d =
       create_quiz_internal L q current_user d"
    by (simp add: create_quiz_internal_def create_quiz_body_def
        resolve_schedule_end_ignored [OF a] persist_end_ignored cong: sum.case_cong)
next
  fix r d'
  assume a: "truthy (start_time q) = Some s"
  assume c: "create_quiz_internal L q current_user d = (r, d')"
  show "adds_only
            (\<lambda>(table, record, res).
               table = ''quizzes'' \<longrightarrow>
                 (\<exists>start_dt end_dt. fromisoformat_ist L (replace_Z s) = Parsed start_dt
                    \<and> plus_minutes L start_dt (duration q) = Inr end_dt
                    \<and> end_dt = start_dt\<lparr>wall := wall start_dt + duration q * 60000000\<rparr>
                    \<and> map_of record ''start_time'' = Some (JString (isoformat L start_dt))
                    \<and> map_of record ''end_time'' = Some (JString (isoformat L end_dt))))
            d d'"
  proof (rule adds_only_mono [OF create_quiz_internal_log [OF c]])
    fix entry :: "string \<times> row \<times> (string + row)"
    obtain t rc res where e: "entry = (t, rc, res)" by (cases entry)
    assume "case entry of (t, record, res) \<Rightarrow>
            (t = ''questions''
             \<or> (t = ''quizzes''
                 \<and> (\<exists>c st en. resolve_schedule L q = Inr (st, en)
                       \<and> record = quiz_record L q c st en)))
            \<and> (\<forall>msg. res = Inl msg \<longrightarrow> r = Inl (handle_exception (Other msg)))"
    then have h: "t = ''quizzes'' \<longrightarrow>
        (\<exists>c st en. resolve_schedule L q = Inr (st, en) \<and> rc = quiz_record L q c st en)"
      using e by auto
    have "t = ''quizzes'' \<longrightarrow>
                 (\<exists>start_dt end_dt. fromisoformat_ist L (replace_Z s) = Parsed start_dt
                    \<and> plus_minutes L start_dt (duration q) = Inr end_dt
                    \<and> end_dt = start_dt\<lparr>wall := wall start_dt + duration q * 60000000\<rparr>
                    \<and> map_of rc ''start_time'' = Some (JString (isoformat L start_dt))
                    \<and> map_of rc ''end_time'' = Some (JString (isoformat L end_dt)))"
    proof (intro impI)
      assume "t = ''quizzes''"
      with h obtain c st en where r: "resolve_schedule L q = Inr (st, en)"
        and rc: "rc = quiz_record L q c st en" by blast
      from resolve_schedule_start_Inr [OF a r] obtain start_dt end_dt where
        p: "fromisoformat_ist L (replace_Z s) = Parsed start_dt"
          "plus_minutes L start_dt (duration q) = Inr end_dt"
        and se: "st = Some (isoformat L start_dt)" "en = Some (isoformat L end_dt)"
        by blast
      from p(2) have w: "end_dt = start_dt\<lparr>wall := wall start_dt + duration q * 60000000\<rparr>"
        by (rule plus_minutes_Inr)
      from se have "map_of rc ''start_time'' = Some (JString (isoformat L start_dt))"
        "map_of rc ''end_time'' = Some (JString (isoformat L end_dt))"
        unfolding rc by (simp_all add: quiz_record_times opt_json_def)
      with p w show "\<exists>start_dt end_dt. fromisoformat_ist L (replace_Z s) = Parsed start_dt
                    \<and> plus_minutes L start_dt (duration q) = Inr end_dt
                    \<and> end_dt = start_dt\<lparr>wall := wall start_dt + duration q * 60000000\<rparr>
                    \<and> map_of rc ''start_time'' = Some (JString (isoformat L start_dt))
                    \<and> map_of rc ''end_time'' = Some (JString (isoformat L end_dt))"
        by blast
    qed
    then show "case entry of (table, record, res) \<Rightarrow>
               table = ''quizzes'' \<longrightarrow>
                 (\<exists>start_dt end_dt. fromisoformat_ist L (replace_Z s) = Parsed start_dt
                    \<and> plus_minutes L start_dt (duration q) = Inr end_dt
                    \<and> end_dt = start_dt\<lparr>wall := wall start_dt + duration q * 60000000\<rparr>
                    \<and> map_of record ''start_time'' = Some (JString (isoformat L start_dt))
                    \<and> map_of record ''end_time'' = Some (JString (isoformat L end_dt)))"
      using e by simp
  qed
qed

theorem start_time_precedence_witness:
  "truthy (start_time (example_quiz\<lparr>start_time := Some ''2030-01-01T10:00:00+05:30'',
                                     end_time := Some ''2030-01-01T10:00:00+05:30''\<rparr>)) =
     Some ''2030-01-01T10:00:00+05:30''
   \<and> create_quiz_internal example_ext
        (example_quiz\<lparr>start_time := Some ''2030-01-01T10:00:00+05:30'',
                      end_time := Some ''2030-01-01T10:00:00+05:30''\<rparr>) example_user empty_db =
       create_quiz_internal example_ext
        (example_quiz\<lparr>start_time := Some ''2030-01-01T10:00:00+05:30''\<rparr>) example_user empty_db
   \<and> map (\<lambda>(table, record, res). (table, map_of record ''start_time'', map_of record ''end_time''))
        (db_log (snd (create_quiz_internal example_ext
           (example_quiz\<lparr>start_time := Some ''2030-01-01T10:00:00+05:30'',
                         end_time := Some ''2030-01-01T10:00:00+05:30''\<rparr>) example_user empty_db))) =
       [(''quizzes'', Some (JString ''2030-01-01T10:00:00+05:30''),
         Some (JString ''2030-01-01T11:00:00+05:30'')),
        (''questions'', None, None)]"
proof -
  let ?s = "''2030-01-01T10:00:00+05:30''"
  let ?q1 = "example_quiz\<lparr>start_time := Some ?s\<rparr>"
  let ?q = "example_quiz\<lparr>start_time := Some ?s, end_time := Some ?s\<rparr>"
  have a: "truthy (start_time ?q1) = Some ?s" by (simp add: truthy_def)
  have a': "truthy (start_time ?q) = Some ?s" by (simp add: truthy_def)
  from start_time_precedence [of ?q1 ?s example_ext "Some ?s" example_user empty_db] a
  have c1: "create_quiz_internal example_ext ?q example_user empty_db =
       create_quiz_internal example_ext ?q1 example_user empty_db"
    by simp
  have c2: "map (\<lambda>(table, record, res). (table, map_of record ''start_time'', map_of record ''end_time''))
        (db_log (snd (create_quiz_internal example_ext ?q example_user empty_db))) =
       [(''quizzes'', Some (JString ?s), Some (JString ''2030-01-01T11:00:00+05:30'')),
        (''questions'', None, None)]"
    by code_simp
  from a' c1 c2 show ?thesis by blast
qed

section \<open>Required fields and defaults of the quiz schema\<close>

lemma with_default_absent: "map_of kw k = None \<Longrightarrow> with_default v dflt kw k = Some dflt"
  by (simp add: with_default_def)

lemma required_absent: "map_of kw k = None \<Longrightarrow> required v kw k = None"
  by (simp add: required_def)

lemma required_value:
  "present_and_valid v kw k \<Longrightarrow> required v kw k = Some (value_or v dflt kw k)"
  by (auto simp: present_and_valid_def required_def value_or_def split: option.splits)

lemma with_default_value:
  "absent_or_valid v kw k \<Longrightarrow> with_default v dflt kw k = Some (value_or v dflt kw k)"
  by (auto simp: absent_or_valid_def with_default_def value_or_def split: option.splits)

lemma required_Some: "required v kw k = Some x \<Longrightarrow> present_and_valid v kw k"
  by (auto simp: present_and_valid_def required_def split: option.splits)

lemma with_default_Some: "with_default v dflt kw k = Some x \<Longrightarrow> absent_or_valid v kw k"
  by (auto simp: absent_or_valid_def with_default_def split: option.splits)

lemma value_or_absent: "map_of kw k = None \<Longrightarrow> value_or v dflt kw k = dflt"
  by (simp add: value_or_def)

lemma QuizCreate_init_fields:
  assumes "QuizCreate_init L kw = Some q"
  shows "required (validate_str L) kw ''title'' = Some (title q)"
    and "required (validate_str L) kw ''description'' = Some (description q)"
    and "with_default (validate_bool L) False kw ''is_trivia'' = Some (is_trivia q)"
    and "with_default (optional_str L) None kw ''topic'' = Some (topic q)"
    and "with_default (optional_str L) None kw ''start_time'' = Some (start_time q)"
    and "with_default (optional_str L) None kw ''end_time'' = Some (end_time q)"
    and "with_default (validate_int L) 60 kw ''duration'' = Some (duration q)"
    and "with_default (validate_int L) 1 kw ''positive_mark'' = Some (positive_mark q)"
    and "with_default (validate_int L) 0 kw ''negative_mark'' = Some (negative_mark q)"
    and "with_default (validate_str L) ''omni'' kw ''navigation_type'' = Some (navigation_type q)"
    and "with_default (validate_bool L) True kw ''tab_switch_exit'' = Some (tab_switch_exit q)"
    and "with_default (optional_str L) None kw ''difficulty'' = Some (difficulty q)"
    and "with_default (question_list L) [] kw ''questions'' = Some (questions q)"
  using assms by (auto simp: QuizCreate_init_def split: Option.bind_splits)

lemma QuizCreate_init_acceptable:
  assumes "acceptable L kw"
  shows "QuizCreate_init L kw =
     Some \<lparr>title = value_or (validate_str L) [] kw ''title'',
           description = value_or (validate_str L) [] kw ''description'',
           is_trivia = value_or (validate_bool L) False kw ''is_trivia'',
           topic = value_or (optional_str L) None kw ''topic'',
           start_time = value_or (optional_str L) None kw ''start_time'',
           end_time = value_or (optional_str L) None kw ''end_time'',
           duration = value_or (validate_int L) 60 kw ''duration'',
           positive_mark = value_or (validate_int L) 1 kw ''positive_mark'',
           negative_mark = value_or (validate_int L) 0 kw ''negative_mark'',
           navigation_type = value_or (validate_str L) ''omni'' kw ''navigation_type'',
           tab_switch_exit = value_or (validate_bool L) True kw ''tab_switch_exit'',
           difficulty = value_or (optional_str L) None kw ''difficulty'',
           questions = value_or (question_list L) [] kw ''questions''\<rparr>"
proof -
  note a = assms [unfolded acceptable_def]
  have "required (validate_str L) kw ''title'' = Some (value_or (validate_str L) [] kw ''title'')"
    "required (validate_str L) kw ''description'' = Some (value_or (validate_str L) [] kw ''description'')"
    using a by (simp_all add: required_value)
  moreover have
    "with_default (validate_bool L) False kw ''is_trivia'' = Some (value_or (validate_bool L) False kw ''is_trivia'')"
    "with_default (optional_str L) None kw ''topic'' = Some (value_or (optional_str L) None kw ''topic'')"
    "with_default (optional_str L) None kw ''start_time'' = Some (value_or (optional_str L) None kw ''start_time'')"
    "with_default (optional_str L) None kw ''end_time'' = Some (value_or (optional_str L) None kw ''end_time'')"
    "with_default (validate_int L) 60 kw ''duration'' = Some (value_or (validate_int L) 60 kw ''duration'')"
    "with_default (validate_int L) 1 kw ''positive_mark'' = Some (value_or (validate_int L) 1 kw ''positive_mark'')"
    "with_default (validate_int L) 0 kw ''negative_mark'' = Some (value_or (validate_int L) 0 kw ''negative_mark'')"
    "with_default (validate_str L) ''omni'' kw ''navigation_type'' = Some (value_or (validate_str L) ''omni'' kw ''navigation_type'')"
    "with_default (validate_bool L) True kw ''tab_switch_exit'' = Some (value_or (validate_bool L) True kw ''tab_switch_exit'')"
    "with_default (optional_str L) None kw ''difficulty'' = Some (value_or (optional_str L) None kw ''difficulty'')"
    "with_default (question_list L) [] kw ''questions'' = Some (value_or (question_list L) [] kw ''questions'')"
    using a by (simp_all add: with_default_value)
  ultimately show ?thesis by (simp only: QuizCreate_init_def) simp
qed

lemma QuizCreate_init_Some_acceptable:
  assumes "QuizCreate_init L kw = Some q"
  shows "acceptable L kw"
  unfolding acceptable_def
  using QuizCreate_init_fields [OF assms]
  by (intro conjI) (erule required_Some with_default_Some)+


text \<open>
  Claim C10. Of the fields of \<^verbatim>\<open>QuizCreate\<close> only \<^verbatim>\<open>title\<close> and \<^verbatim>\<open>description\<close> are required:
  without one of them the construction fails, and it succeeds exactly when these two
  are present and valid and every other field is absent or valid, so that the absence
  of a field with a default never makes it fail. The object then holds for each field
  the validated value, or the default when the field is absent: duration 60, positive
  mark 1, negative mark 0, navigation type "omni", tab switch exit true, no questions
  (and is_trivia false, topic, start_time, end_time and difficulty absent). A
  \<^verbatim>\<open>quiz_creation\<close> payload without \<^verbatim>\<open>questions\<close> whose other fields are acceptable
  therefore ends in the error 400 "Quiz must have at least 1 question", with nothing
  written.
\<close>

theorem QuizCreate_defaults:
  "(map_of kw ''title'' = None \<or> map_of kw ''description'' = None \<longrightarrow>
      QuizCreate_init L kw = None)
   \<and> (QuizCreate_init L kw \<noteq> None \<longleftrightarrow> acceptable L kw)
   \<and> (acceptable L kw \<longrightarrow>
        QuizCreate_init L kw =
          Some \<lparr>title = value_or (validate_str L) [] kw ''title'',
                description = value_or (validate_str L) [] kw ''description'',
                is_trivia = value_or (validate_bool L) False kw ''is_trivia'',
                topic = value_or (optional_str L) None kw ''topic'',
                start_time = value_or (optional_str L) None kw ''start_time'',
                end_time = value_or (optional_str L) None kw ''end_time'',
                duration = value_or (validate_int L) 60 kw ''duration'',
                positive_mark = value_or (validate_int L) 1 kw ''positive_mark'',
                negative_mark = value_or (validate_int L) 0 kw ''negative_mark'',
                navigation_type = value_or (validate_str L) ''omni'' kw ''navigation_type'',
                tab_switch_exit = value_or (validate_bool L) True kw ''tab_switch_exit'',
                difficulty = value_or (optional_str L) None kw ''difficulty'',
                questions = value_or (question_list L) [] kw ''questions''\<rparr>)
   \<and> (map_of kw ''duration'' = None \<longrightarrow> value_or (validate_int L) 60 kw ''duration'' = 60)
   \<and> (map_of kw ''positive_mark'' = None \<longrightarrow> value_or (validate_int L) 1 kw ''positive_mark'' = 1)
   \<and> (map_of kw ''negative_mark'' = None \<longrightarrow> value_or (validate_int L) 0 kw ''negative_mark'' = 0)
   \<and> (map_of kw ''navigation_type'' = None \<longrightarrow>
        value_or (validate_str L) ''omni'' kw ''navigation_type'' = ''omni'')
   \<and> (map_of kw ''tab_switch_exit'' = None \<longrightarrow>
        value_or (validate_bool L) True kw ''tab_switch_exit'' = True)
   \<and> (map_of kw ''questions'' = None \<longrightarrow> value_or (question_list L) [] kw ''questions'' = [])
   \<and> (map_of kw ''title'' = Some t \<and> validate_str L t = Some t'
        \<and> map_of kw ''description'' = Some de \<and> validate_str L de = Some de'
        \<and> map_of kw ''is_trivia'' = None \<and> map_of kw ''topic'' = None
        \<and> map_of kw ''start_time'' = None \<and> map_of kw ''end_time'' = None
        \<and> map_of kw ''duration'' = None \<and> map_of kw ''positive_mark'' = None
        \<and> map_of kw ''negative_mark'' = None \<and> map_of kw ''navigation_type'' = None
        \<and> map_of kw ''tab_switch_exit'' = None \<and> map_of kw ''difficulty'' = None
        \<and> map_of kw ''questions'' = None \<longrightarrow>
      QuizCreate_init L kw =
        Some \<lparr>title = t', description = de', is_trivia = False, topic = None,
              start_time = None, end_time = None, duration = 60, positive_mark = 1,
              negative_mark = 0, navigation_type = ''omni'', tab_switch_exit = True,
              difficulty = None, questions = []\<rparr>)
   \<and> (QuizCreate_init L kw = Some q \<longrightarrow>
        (map_of kw ''duration'' = None \<longrightarrow> duration q = 60)
        \<and> (map_of kw ''positive_mark'' = None \<longrightarrow> positive_mark q = 1)
        \<and> (map_of kw ''negative_mark'' = None \<longrightarrow> negative_mark q = 0)
        \<and> (map_of kw ''navigation_type'' = None \<longrightarrow> navigation_type q = ''omni'')
        \<and> (map_of kw ''tab_switch_exit'' = None \<longrightarrow> tab_switch_exit q = True)
        \<and> (map_of kw ''questions'' = None \<longrightarrow> questions q = []))
   \<and> (truthy response_text = Some text
        \<and> clean_gemini_json (json_loads L) text = Inr (JObject response_json)
        \<and> route response_json = QuizCreation kw
        \<and> map_of response_json ''questions'' = None
        \<and> acceptable L kw \<longrightarrow>
      generate_quiz L prompt current_user response_text d =
        (Inl (HTTPException 400 ''Quiz must have at least 1 question''), d))"
proof (intro conjI impI)
  assume "map_of kw ''title'' = None \<or> map_of kw ''description'' = None"
  then show "QuizCreate_init L kw = None"
    by (auto simp: QuizCreate_init_def required_def split: Option.bind_splits)
next
  show "QuizCreate_init L kw \<noteq> None \<longleftrightarrow> acceptable L kw"
    using QuizCreate_init_acceptable [of L kw] QuizCreate_init_Some_acceptable [of L kw]
    by auto
next
  assume "acceptable L kw"
  then show "QuizCreate_init L kw =
          Some \<lparr>title = value_or (validate_str L) [] kw ''title'',
                description = value_or (validate_str L) [] kw ''description'',
                is_trivia = value_or (validate_bool L) False kw ''is_trivia'',
                topic = value_or (optional_str L) None kw ''topic'',
                start_time = value_or (optional_str L) None kw ''start_time'',
                end_time = value_or (optional_str L) None kw ''end_time'',
                duration = value_or (validate_int L) 60 kw ''duration'',
                positive_mark = value_or (validate_int L) 1 kw ''positive_mark'',
                negative_mark = value_or (validate_int L) 0 kw ''negative_mark'',
                navigation_type = value_or (validate_str L) ''omni'' kw ''navigation_type'',
                tab_switch_exit = value_or (validate_bool L) True kw ''tab_switch_exit'',
                difficulty = value_or (optional_str L) None kw ''difficulty'',
                questions = value_or (question_list L) [] kw ''questions''\<rparr>"
    by (rule QuizCreate_init_acceptable)
next
  assume "map_of kw ''duration'' = None"
  then show "value_or (validate_int L) 60 kw ''duration'' = 60" by (rule value_or_absent)
next
  assume "map_of kw ''positive_mark'' = None"
  then show "value_or (validate_int L) 1 kw ''positive_mark'' = 1" by (rule value_or_absent)
next
  assume "map_of kw ''negative_mark'' = None"
  then show "value_or (validate_int L) 0 kw ''negative_mark'' = 0" by (rule value_or_absent)
next
  assume "map_of kw ''navigation_type'' = None"
  then show "value_or (validate_str L) ''omni'' kw ''navigation_type'' = ''omni''"
    by (rule value_or_absent)
next
  assume "map_of kw ''tab_switch_exit'' = None"
  then show "value_or (validate_bool L) True kw ''tab_switch_exit'' = True"
    by (rule value_or_absent)
next
  assume "map_of kw ''questions'' = None"
  then show "value_or (question_list L) [] kw ''questions'' = []" by (rule value_or_absent)
next
  assume "map_of kw ''title'' = Some t \<and> validate_str L t = Some t'
        \<and> map_of kw ''description'' = Some de \<and> validate_str L de = Some de'
        \<and> map_of kw ''is_trivia'' = None \<and> map_of kw ''topic'' = None
        \<and> map_of kw ''start_time'' = None \<and> map_of kw ''end_time'' = None
        \<and> map_of kw ''duration'' = None \<and> map_of kw ''positive_mark'' = None
        \<and> map_of kw ''negative_mark'' = None \<and> map_of kw ''navigation_type'' = None
        \<and> map_of kw ''tab_switch_exit'' = None \<and> map_of kw ''difficulty'' = None
        \<and> map_of kw ''questions'' = None"
  then show "QuizCreate_init L kw =
        Some \<lparr>title = t', description = de', is_trivia = False, topic = None,
              start_time = None, end_time = None, duration = 60, positive_mark = 1,
              negative_mark = 0, navigation_type = ''omni'', tab_switch_exit = True,
              difficulty = None, questions = []\<rparr>"
    by (simp add: QuizCreate_init_def required_def with_default_def)
next
  assume a: "QuizCreate_init L kw = Some q"
  assume "map_of kw ''duration'' = None"
  then show "duration q = 60"
    using QuizCreate_init_fields(7) [OF a] by (simp add: with_default_def)
next
  assume a: "QuizCreate_init L kw = Some q"
  assume "map_of kw ''positive_mark'' = None"
  then show "positive_mark q = 1"
    using QuizCreate_init_fields(8) [OF a] by (simp add: with_default_def)
next
  assume a: "QuizCreate_init L kw = Some q"
  assume "map_of kw ''negative_mark'' = None"
  then show "negative_mark q = 0"
    using QuizCreate_init_fields(9) [OF a] by (simp add: with_default_def)
next
  assume a: "QuizCreate_init L kw = Some q"
  assume "map_of kw ''navigation_type'' = None"
  then show "navigation_type q = ''omni''"
    using QuizCreate_init_fields(10) [OF a] by (simp add: with_default_def)
next
  assume a: "QuizCreate_init L kw = Some q"
  assume "map_of kw ''tab_switch_exit'' = None"
  then show "tab_switch_exit q = True"
    using QuizCreate_init_fields(11) [OF a] by (simp add: with_default_def)
next
  assume a: "QuizCreate_init L kw = Some q"
  assume "map_of kw ''questions'' = None"
  then show "questions q = []"
    using QuizCreate_init_fields(13) [OF a] by (simp add: with_default_def)
next
  assume a: "truthy response_text = Some text
        \<and> clean_gemini_json (json_loads L) text = Inr (JObject response_json)
        \<and> route response_json = QuizCreation kw
        \<and> map_of response_json ''questions'' = None
        \<and> acceptable L kw"
  then have i: "map_of response_json ''intent'' = Some (JString ''quiz_creation'')"
    and k: "kw = filter (\<lambda>(k, v). k \<noteq> ''intent'') response_json"
    by (auto simp: route_def split: if_splits)
  have n: "map_of kw ''questions'' = None"
    unfolding k using a by (simp add: map_of_filter_key)
  from a obtain q where q: "QuizCreate_init L kw = Some q"
    using QuizCreate_init_acceptable [of L kw] by blast
  have "questions q = []"
    using QuizCreate_init_fields(13) [OF q] n by (simp add: with_default_def)
  with a i k q show "generate_quiz L prompt current_user response_text d =
        (Inl (HTTPException 400 ''Quiz must have at least 1 question''), d)"
    by (simp add: generate_quiz_def quiz_creation_def create_from_parsed_def)
qed


theorem QuizCreate_defaults_witness:
  \<open>acceptable example_ext
     [(''title'', JString ''Plants''), (''description'', JString ''About plants''),
      (''questions'',
       JArray [JObject [(''question_text'', JString ''Which gas do plants absorb?''),
                        (''option_a'', JString ''Oxygen''),
                        (''option_b'', JString ''Carbon dioxide''),
                        (''option_c'', JString ''Helium''), (''option_d'', JString ''Neon''),
                        (''correct_option'', JString ''b'')]])]
   \<and> QuizCreate_init example_ext
        [(''title'', JString ''Plants''), (''description'', JString ''About plants''),
         (''questions'',
          JArray [JObject [(''question_text'', JString ''Which gas do plants absorb?''),
                           (''option_a'', JString ''Oxygen''),
                           (''option_b'', JString ''Carbon dioxide''),
                           (''option_c'', JString ''Helium''), (''option_d'', JString ''Neon''),
                           (''correct_option'', JString ''b'')]])] =
       Some \<lparr>title = ''Plants'', description = ''About plants'', is_trivia = False, topic = None,
             start_time = None, end_time = None, duration = 60, positive_mark = 1,
             negative_mark = 0, navigation_type = ''omni'', tab_switch_exit = True,
             difficulty = None, questions = [example_question]\<rparr>
   \<and> QuizCreate_init example_ext [(''description'', JString ''About plants'')] = None
   \<and> truthy (Some ''{"intent": "quiz_creation", "title": "Plants", "description": "About plants"}'') =
       Some ''{"intent": "quiz_creation", "title": "Plants", "description": "About plants"}''
   \<and> clean_gemini_json (json_loads example_ext)
        ''{"intent": "quiz_creation", "title": "Plants", "description": "About plants"}'' =
       Inr (JObject [(''intent'', JString ''quiz_creation''), (''title'', JString ''Plants''),
                     (''description'', JString ''About plants'')])
   \<and> route [(''intent'', JString ''quiz_creation''), (''title'', JString ''Plants''),
             (''description'', JString ''About plants'')] =
       QuizCreation [(''title'', JString ''Plants''), (''description'', JString ''About plants'')]
   \<and> acceptable example_ext
        [(''title'', JString ''Plants''), (''description'', JString ''About plants'')]
   \<and> generate_quiz example_ext ''Make a quiz'' example_user
        (Some ''{"intent": "quiz_creation", "title": "Plants", "description": "About plants"}'')
        empty_db =
       (Inl (HTTPException 400 ''Quiz must have at least 1 question''), empty_db)\<close>
proof -
  let ?T = \<open>''{"intent": "quiz_creation", "title": "Plants", "description": "About plants"}''\<close>
  let ?kw = "[(''title'', JString ''Plants''), (''description'', JString ''About plants'')]"
  let ?kw1 = "[(''description'', JString ''About plants'')]"
  let ?kwq = "[(''title'', JString ''Plants''), (''description'', JString ''About plants''),
      (''questions'',
       JArray [JObject [(''question_text'', JString ''Which gas do plants absorb?''),
                        (''option_a'', JString ''Oxygen''),
                        (''option_b'', JString ''Carbon dioxide''),
                        (''option_c'', JString ''Helium''), (''option_d'', JString ''Neon''),
                        (''correct_option'', JString ''b'')]])]"
  let ?R = "(''intent'', JString ''quiz_creation'') # ?kw"
  let ?q = "\<lparr>title = ''Plants'', description = ''About plants'', is_trivia = False, topic = None,
             start_time = None, end_time = None, duration = 60, positive_mark = 1,
             negative_mark = 0, navigation_type = ''omni'', tab_switch_exit = True,
             difficulty = None, questions = [example_question]\<rparr>"
  have a1: "acceptable example_ext ?kwq" by code_simp
  have a2: "acceptable example_ext ?kw" by code_simp
  have v: "\<lparr>title = value_or (validate_str example_ext) [] ?kwq ''title'',
            description = value_or (validate_str example_ext) [] ?kwq ''description'',
            is_trivia = value_or (validate_bool example_ext) False ?kwq ''is_trivia'',
            topic = value_or (optional_str example_ext) None ?kwq ''topic'',
            start_time = value_or (optional_str example_ext) None ?kwq ''start_time'',
            end_time = value_or (optional_str example_ext) None ?kwq ''end_time'',
            duration = value_or (validate_int example_ext) 60 ?kwq ''duration'',
            positive_mark = value_or (validate_int example_ext) 1 ?kwq ''positive_mark'',
            negative_mark = value_or (validate_int example_ext) 0 ?kwq ''negative_mark'',
            navigation_type = value_or (validate_str example_ext) ''omni'' ?kwq ''navigation_type'',
            tab_switch_exit = value_or (validate_bool example_ext) True ?kwq ''tab_switch_exit'',
            difficulty = value_or (optional_str example_ext) None ?kwq ''difficulty'',
            questions = value_or (question_list example_ext) [] ?kwq ''questions''\<rparr> = ?q"
    by code_simp
  have h1: "truthy (Some ?T) = Some ?T" by (simp add: truthy_def)
  have h2: "clean_gemini_json (json_loads example_ext) ?T = Inr (JObject ?R)" by code_simp
  have h3: "route ?R = QuizCreation ?kw" by (simp add: route_def)
  have h4: "map_of ?R ''questions'' = None" by simp
  note tq = QuizCreate_defaults [of ?kwq example_ext]
  note t1 = QuizCreate_defaults [of ?kw1 example_ext]
  note t = QuizCreate_defaults [of ?kw example_ext _ _ _ _ _ "Some ?T" ?T ?R "''Make a quiz''"
      example_user empty_db]
  note tq3 = tq [THEN conjunct2, THEN conjunct2, THEN conjunct1, rule_format]
  note t11 = t1 [THEN conjunct1, rule_format]
  note t12 = t [THEN conjunct2, THEN conjunct2, THEN conjunct2, THEN conjunct2, THEN conjunct2,
      THEN conjunct2, THEN conjunct2, THEN conjunct2, THEN conjunct2, THEN conjunct2,
      THEN conjunct2, rule_format]
  have c1: "QuizCreate_init example_ext ?kwq = Some ?q"
    using tq3 [OF a1] unfolding v .
  have "map_of ?kw1 ''title'' = None \<or> map_of ?kw1 ''description'' = None" by simp
  then have c2: "QuizCreate_init example_ext ?kw1 = None" by (rule t11)
  have "truthy (Some ?T) = Some ?T
        \<and> clean_gemini_json (json_loads example_ext) ?T = Inr (JObject ?R)
        \<and> route ?R = QuizCreation ?kw
        \<and> map_of ?R ''questions'' = None
        \<and> acceptable example_ext ?kw"
    using h1 h2 h3 h4 a2 by (intro conjI)
  then have c3: "generate_quiz example_ext ''Make a quiz'' example_user (Some ?T) empty_db =
       (Inl (HTTPException 400 ''Quiz must have at least 1 question''), empty_db)"
    by (rule t12)
  show ?thesis
    apply (intro conjI)
    apply (rule a1)
    apply (rule c1)
    apply (rule c2)
    apply (rule h1)
    apply (rule h2)
    apply (rule h3)
    apply (rule a2)
    apply (rule c3)
    done
qed

end
